theory Spec2Isabelle
  imports Complex_Main "HOL-Library.Multiset"
begin

section \<open>The credit-default notebook\<close>

text \<open>
  A shallow embedding of \<^verbatim>\<open>notebooks/plot_credit_default.ipynb\<close>. The notebook is a
  linear script over pandas, numpy and scikit-learn. Each library call the notebook makes is
  given the meaning its library documents. A table cell is a float64, and a missing cell of
  the sheet is read as \<open>NaN\<close>. The float64 operations of the processor and the pseudo-random
  generator of numpy are not part of the notebook and are taken as parameters.
\<close>

subsection \<open>Errors\<close>

datatype py_error = KeyError | ValueError

definition bind_err :: "py_error + 'a \<Rightarrow> ('a \<Rightarrow> py_error + 'b) \<Rightarrow> py_error + 'b" where
  "bind_err m f = (case m of Inl e \<Rightarrow> Inl e | Inr v \<Rightarrow> f v)"

subsection \<open>Data frames\<close>

text \<open>
  A \<^verbatim>\<open>DataFrame\<close> is its list of column labels and its two-dimensional array of values,
  kept row by row as \<^verbatim>\<open>data.values\<close> and \<^verbatim>\<open>np.array(X)\<close> give it.
\<close>

text \<open>A float64: not a number, a number, or one of the two infinities.\<close>

datatype float64 = NaN | Val real | PosInf | NegInf

record dataframe =
  columns :: "string list"
  vals :: "float64 list list"

text \<open>The array of a frame is rectangular: every row has one value for each column.\<close>

definition rect :: "dataframe \<Rightarrow> bool" where
  "rect df = list_all (\<lambda>r. length r = length (columns df)) (vals df)"

text \<open>The value that the row \<open>r\<close> of a frame with the labels \<open>cols\<close> has in column \<open>c\<close>.\<close>

definition row_get :: "string list \<Rightarrow> float64 list \<Rightarrow> string \<Rightarrow> float64 option" where
  "row_get cols r c = map_of (zip cols r) c"

definition cell :: "dataframe \<Rightarrow> nat \<Rightarrow> string \<Rightarrow> float64 option" where
  "cell df i c = row_get (columns df) (vals df ! i) c"

text \<open>\<^verbatim>\<open>df.drop(labels, axis=1)\<close>: a label that is no column raises \<^verbatim>\<open>KeyError\<close>.\<close>

definition drop_cols :: "string list \<Rightarrow> dataframe \<Rightarrow> py_error + dataframe" where
  "drop_cols labels df =
     (if set labels \<subseteq> set (columns df)
      then Inr \<lparr>columns = filter (\<lambda>c. c \<notin> set labels) (columns df),
                vals = map (\<lambda>r. map snd (filter (\<lambda>cv. fst cv \<notin> set labels) (zip (columns df) r)))
                         (vals df)\<rparr>
      else Inl KeyError)"

text \<open>\<^verbatim>\<open>del df[col]\<close>.\<close>

definition del_col :: "string \<Rightarrow> dataframe \<Rightarrow> py_error + dataframe" where
  "del_col col df = drop_cols [col] df"

text \<open>\<^verbatim>\<open>df.rename(columns=m)\<close>: labels that are keys of \<open>m\<close> are replaced, the others kept.\<close>

definition rename_columns :: "(string \<rightharpoonup> string) \<Rightarrow> dataframe \<Rightarrow> dataframe" where
  "rename_columns m df =
     df\<lparr>columns := map (\<lambda>c. case m c of Some c' \<Rightarrow> c' | None \<Rightarrow> c) (columns df)\<rparr>"

text \<open>\<^verbatim>\<open>df[labels]\<close> with a list of labels: the sub-frame of these columns, in the order asked.\<close>

definition getitem_cols :: "string list \<Rightarrow> dataframe \<Rightarrow> py_error + dataframe" where
  "getitem_cols labels df =
     (if set labels \<subseteq> set (columns df)
      then Inr \<lparr>columns = labels,
                vals = map (\<lambda>r. map (\<lambda>l. the (row_get (columns df) r l)) labels) (vals df)\<rparr>
      else Inl KeyError)"

text \<open>\<^verbatim>\<open>df[label]\<close> with one label: the column as an array.\<close>

definition getitem_col :: "string \<Rightarrow> dataframe \<Rightarrow> py_error + float64 list" where
  "getitem_col label df =
     (if label \<in> set (columns df)
      then Inr (map (\<lambda>r. the (row_get (columns df) r label)) (vals df))
      else Inl KeyError)"

text \<open>\<^verbatim>\<open>df.apply(f, axis=1)\<close>: \<open>f\<close> on every row, one result per row.\<close>

definition apply_axis1 :: "(float64 list \<Rightarrow> float64) \<Rightarrow> dataframe \<Rightarrow> float64 list" where
  "apply_axis1 f df = map f (vals df)"

text \<open>
  \<^verbatim>\<open>df[label] = series\<close>: an existing column is overwritten in place, a new one is appended
  as the last column. The series has one entry per row.
\<close>

definition setitem :: "string \<Rightarrow> float64 list \<Rightarrow> dataframe \<Rightarrow> dataframe" where
  "setitem label series df =
     (if label \<in> set (columns df)
      then df\<lparr>vals := map2 (\<lambda>r v. map2 (\<lambda>c x. if c = label then v else x) (columns df) r)
                          (vals df) series\<rparr>
      else df\<lparr>columns := columns df @ [label],
              vals := map2 (\<lambda>r v. r @ [v]) (vals df) series\<rparr>)"

subsection \<open>numpy aggregates on a row\<close>

text \<open>
  float64 arithmetic: each operation returns what the processor returns, a rounded number,
  an infinity or \<open>NaN\<close>.
\<close>

record fpu =
  fadd :: "float64 \<Rightarrow> float64 \<Rightarrow> float64"
  fsub :: "float64 \<Rightarrow> float64 \<Rightarrow> float64"
  fmul :: "float64 \<Rightarrow> float64 \<Rightarrow> float64"
  fdiv :: "float64 \<Rightarrow> float64 \<Rightarrow> float64"
  fsqrt :: "float64 \<Rightarrow> float64"

text \<open>
  The lambdas of cell 4 receive a row as a pandas \<^verbatim>\<open>Series\<close>, and \<^verbatim>\<open>np.mean\<close> and
  \<^verbatim>\<open>np.std\<close> hand a \<^verbatim>\<open>Series\<close> over to its own methods, which leave the missing cells out.
  \<open>present x\<close> are the cells of \<open>x\<close> that are not missing, \<open>fsum\<close> adds values up from 0 in
  order.
\<close>

definition present :: "float64 list \<Rightarrow> float64 list" where
  "present x = filter (\<lambda>v. v \<noteq> NaN) x"

definition fsum :: "fpu \<Rightarrow> float64 list \<Rightarrow> float64" where
  "fsum F values = foldl (fadd F) (Val 0) values"

text \<open>\<^verbatim>\<open>np.mean(x)\<close>: the sum of the present cells divided by their number.\<close>

definition np_mean :: "fpu \<Rightarrow> float64 list \<Rightarrow> float64" where
  "np_mean F x =
     (let values = present x; count = length values
      in if count = 0 then NaN else fdiv F (fsum F values) (Val (real count)))"

text \<open>
  \<^verbatim>\<open>np.std(x, ddof=ddof)\<close>: the square root of the sum of the squared deviations of the
  present cells from their mean, divided by their number minus \<open>ddof\<close>. The notebook calls
  \<^verbatim>\<open>np.std(x)\<close>, which passes \<open>ddof = 0\<close> on to the \<^verbatim>\<open>Series\<close>.
\<close>

definition np_std :: "fpu \<Rightarrow> float64 list \<Rightarrow> nat \<Rightarrow> float64" where
  "np_std F x ddof =
     (let values = present x; count = length values
      in if count \<le> ddof then NaN
         else let avg = fdiv F (fsum F values) (Val (real count));
                  sqr = map (\<lambda>v. fmul F (fsub F avg v) (fsub F avg v)) values
              in fsqrt F (fdiv F (fsum F sqr) (Val (real (count - ddof)))))"

subsection \<open>Loading (cell 2)\<close>

definition label_column :: string where
  "label_column = ''default payment next month''"

text \<open>
  The notebook's variables. \<open>var_rng\<close> is unbound (\<open>None\<close>) until the shuffling cell has run.
\<close>

record 'g kernel =
  var_X :: dataframe
  var_y :: "float64 list"
  var_data :: dataframe
  var_rng :: "'g option"

text \<open>
  \<open>sheet\<close> is what \<^verbatim>\<open>pd.read_excel\<close> returned. The features \<open>X\<close> are the sheet without the
  label column, the target \<open>y\<close> is the label column.
\<close>

definition cell_load :: "dataframe \<Rightarrow> py_error + 'g kernel" where
  "cell_load sheet =
     bind_err (drop_cols [label_column] sheet) (\<lambda>X.
     bind_err (getitem_col label_column sheet) (\<lambda>y.
     Inr \<lparr>var_X = X, var_y = y, var_data = sheet, var_rng = None\<rparr>))"

subsection \<open>Shuffling (cell 3)\<close>

text \<open>
  numpy's generator: \<open>RandomState seed\<close> is the generator state after seeding, and
  \<open>rk_interval mx g\<close> draws an integer of the interval \<open>[0, mx]\<close> and gives the next state.
\<close>

record 'g prng =
  RandomState :: "nat \<Rightarrow> 'g"
  rk_interval :: "nat \<Rightarrow> 'g \<Rightarrow> nat \<times> 'g"


text \<open>
  \<^verbatim>\<open>RandomState.shuffle\<close> on a one-dimensional array: for \<open>i\<close> from \<open>n - 1\<close> down to 1, draw
  \<open>j\<close> in \<open>[0, i]\<close> and swap the entries \<open>i\<close> and \<open>j\<close>.
\<close>

fun shuffle_raw :: "(nat \<Rightarrow> 'g \<Rightarrow> nat \<times> 'g) \<Rightarrow> nat \<Rightarrow> 'a list \<Rightarrow> 'g \<Rightarrow> 'a list \<times> 'g" where
  "shuffle_raw rk 0 x g = (x, g)"
| "shuffle_raw rk (Suc i) x g =
     (case rk (Suc i) g of (j, g') \<Rightarrow> shuffle_raw rk i (x[j := x ! Suc i, Suc i := x ! j]) g')"

definition rng_shuffle :: "'g prng \<Rightarrow> 'a list \<Rightarrow> 'g \<Rightarrow> 'a list \<times> 'g" where
  "rng_shuffle P x g = shuffle_raw (rk_interval P) (length x - 1) x g"

text \<open>
  \<^verbatim>\<open>sklearn.utils.shuffle(a, b, random_state=rng)\<close>: the arrays must have the same length;
  the indices \<open>0, ..., n - 1\<close> are shuffled once and both arrays are indexed with them.
\<close>

definition sk_shuffle ::
  "'g prng \<Rightarrow> 'a list \<Rightarrow> 'b list \<Rightarrow> 'g \<Rightarrow> py_error + ('a list \<times> 'b list \<times> 'g)" where
  "sk_shuffle P a b g =
     (if length a \<noteq> length b then Inl ValueError
      else case rng_shuffle P [0..<length a] g of
             (indices, g') \<Rightarrow> Inr (map (\<lambda>i. a ! i) indices, map (\<lambda>i. b ! i) indices, g'))"

definition cell_shuffle :: "'g prng \<Rightarrow> 'g kernel \<Rightarrow> py_error + 'g kernel" where
  "cell_shuffle P s =
     (let rng = RandomState P 1 in
      bind_err (sk_shuffle P (vals (var_X s)) (var_y s) rng) (\<lambda>(data, y, rng').
      bind_err (del_col ''ID'' \<lparr>columns = columns (var_X s), vals = data\<rparr>) (\<lambda>data.
      Inr (s\<lparr>var_y := y, var_data := data, var_rng := Some rng'\<rparr>))))"

subsection \<open>Feature engineering (cell 4)\<close>

definition old_PAY :: "string list" where
  "old_PAY = [''PAY_3'', ''PAY_4'', ''PAY_5'', ''PAY_6'']"

definition old_BILL_AMT :: "string list" where
  "old_BILL_AMT = [''BILL_AMT3'', ''BILL_AMT4'', ''BILL_AMT5'', ''BILL_AMT6'']"

definition old_PAY_AMT :: "string list" where
  "old_PAY_AMT = [''PAY_AMT3'', ''PAY_AMT4'', ''PAY_AMT5'', ''PAY_AMT6'']"

text \<open>One line \<^verbatim>\<open>data[label] = data[cols].apply(lambda x: f(x), axis=1)\<close>.\<close>

definition add_feature ::
  "string \<Rightarrow> (float64 list \<Rightarrow> float64) \<Rightarrow> string list \<Rightarrow> dataframe \<Rightarrow>
     py_error + dataframe" where
  "add_feature label f cols data =
     bind_err (getitem_cols cols data) (\<lambda>sub. Inr (setitem label (apply_axis1 f sub) data))"

text \<open>The derivation proper: the five new columns, then the drop of the twelve old ones.\<close>

definition derive_features :: "fpu \<Rightarrow> dataframe \<Rightarrow> py_error + dataframe" where
  "derive_features F data =
     bind_err (add_feature ''PAY_old_mean'' (\<lambda>x. np_mean F x) old_PAY data) (\<lambda>data.
     bind_err (add_feature ''BILL_AMT_old_mean'' (\<lambda>x. np_mean F x) old_BILL_AMT data) (\<lambda>data.
     bind_err (add_feature ''BILL_AMT_old_std'' (\<lambda>x. np_std F x 0) old_BILL_AMT data) (\<lambda>data.
     bind_err (add_feature ''PAY_AMT_old_mean'' (\<lambda>x. np_mean F x) old_PAY_AMT data) (\<lambda>data.
     bind_err (add_feature ''PAY_AMT_old_std'' (\<lambda>x. np_std F x 0) old_PAY_AMT data) (\<lambda>data.
     drop_cols (old_PAY_AMT @ old_BILL_AMT @ old_PAY) data)))))"

text \<open>The whole cell: the renaming of \<^verbatim>\<open>PAY_0\<close>, then the derivation.\<close>

definition feature_engineering :: "fpu \<Rightarrow> dataframe \<Rightarrow> py_error + dataframe" where
  "feature_engineering F data =
     derive_features F (rename_columns [''PAY_0'' \<mapsto> ''PAY_1''] data)"

definition cell_features :: "fpu \<Rightarrow> 'g kernel \<Rightarrow> py_error + 'g kernel" where
  "cell_features F s =
     bind_err (feature_engineering F (var_data s)) (\<lambda>data. Inr (s\<lparr>var_data := data\<rparr>))"

subsection \<open>Train/test split (cell 5)\<close>

record split =
  feature_names :: "string list"
  X_train :: "float64 list list"
  X_test :: "float64 list list"
  y_train :: "float64 list"
  y_test :: "float64 list"

text \<open>
  \<^verbatim>\<open>int(n_samples / 2)\<close> is the floor of the half for a row count; \<^verbatim>\<open>a[:k]\<close> and
  \<^verbatim>\<open>a[k:]\<close> are the first \<open>k\<close> entries and the rest.
\<close>

definition train_test_split :: "dataframe \<Rightarrow> float64 list \<Rightarrow> split" where
  "train_test_split data y =
     (let values = vals data;
          n_samples = length values;
          n_samples_train = n_samples div 2
      in \<lparr>feature_names = columns data,
          X_train = take n_samples_train values,
          X_test = drop n_samples_train values,
          y_train = take n_samples_train y,
          y_test = drop n_samples_train y\<rparr>)"

definition cell_split :: "'g kernel \<Rightarrow> split" where
  "cell_split s = train_test_split (var_data s) (var_y s)"

text \<open>Cells 2 to 5 in order.\<close>

definition notebook :: "'g prng \<Rightarrow> fpu \<Rightarrow> dataframe \<Rightarrow> py_error + split" where
  "notebook P F sheet =
     bind_err (cell_load sheet) (\<lambda>s.
     bind_err (cell_shuffle P s) (\<lambda>s.
     bind_err (cell_features F s) (\<lambda>s.
     Inr (cell_split s))))"

subsection \<open>Grid search (cell 6)\<close>

record params =
  max_depth :: nat
  max_features :: real

text \<open>\<^verbatim>\<open>np.linspace(start, stop, num)\<close>: \<open>num\<close> evenly spaced values, the last one \<open>stop\<close>.\<close>

definition np_linspace :: "real \<Rightarrow> real \<Rightarrow> nat \<Rightarrow> real list" where
  "np_linspace start stop num =
     (let step = (stop - start) / real (num - 1);
          y = map (\<lambda>i. real i * step + start) [0..<num]
      in if 1 < num then y[num - 1 := stop] else y)"

text \<open>The candidates of \<^verbatim>\<open>param_grid\<close>: every depth of \<^verbatim>\<open>range(3, 8, 1)\<close> with every fraction.\<close>

definition param_grid :: "params list" where
  "param_grid =
     concat (map (\<lambda>d. map (\<lambda>f. \<lparr>max_depth = d, max_features = f\<rparr>) (np_linspace 0.1 1 5))
                 [3..<8])"

text \<open>The index of the first largest score, as \<^verbatim>\<open>best_index_\<close> is.\<close>

fun argmax :: "real list \<Rightarrow> nat" where
  "argmax [] = 0"
| "argmax [s] = 0"
| "argmax (s # ss) = (let k = argmax ss in if s < ss ! k then Suc k else 0)"

text \<open>
  \<^verbatim>\<open>rf.best_params_\<close> after \<^verbatim>\<open>rf.fit(X_train, y_train)\<close>. \<open>cv_auc\<close> is the mean
  cross-validated AUC of the forest with the given parameters on the training set; it is
  computed by scikit-learn and taken as a parameter.
\<close>

definition best_params ::
  "(float64 list list \<Rightarrow> float64 list \<Rightarrow> params \<Rightarrow> real) \<Rightarrow>
     float64 list list \<Rightarrow> float64 list \<Rightarrow> params" where
  "best_params cv_auc Xtr ytr = param_grid ! argmax (map (cv_auc Xtr ytr) param_grid)"

section \<open>Vocabulary of the properties\<close>

text \<open>The values that row \<open>i\<close> of a frame has in the columns \<open>cols\<close>, in this order.\<close>

definition row_values :: "dataframe \<Rightarrow> nat \<Rightarrow> string list \<Rightarrow> float64 list" where
  "row_values df i cols = map (\<lambda>c. the (cell df i c)) cols"

text \<open>
  A frame as \<^verbatim>\<open>pd.read_excel\<close> gives it: rectangular, and with pairwise distinct labels
  (repeated headers are renamed on reading).
\<close>

definition well_formed :: "dataframe \<Rightarrow> bool" where
  "well_formed df = (rect df \<and> distinct (columns df))"

text \<open>The twelve columns that the notebook drops, and the five that it adds.\<close>

abbreviation source_columns :: "string list" where
  "source_columns \<equiv> old_PAY_AMT @ old_BILL_AMT @ old_PAY"

definition derived_columns :: "string list" where
  "derived_columns = [''PAY_old_mean'', ''BILL_AMT_old_mean'', ''BILL_AMT_old_std'',
                      ''PAY_AMT_old_mean'', ''PAY_AMT_old_std'']"

abbreviation pay_rename :: "string \<rightharpoonup> string" where
  "pay_rename \<equiv> [''PAY_0'' \<mapsto> ''PAY_1'']"

text \<open>The labels of a frame after an assignment to the column \<open>l\<close>.\<close>

definition with_label :: "string \<Rightarrow> string list \<Rightarrow> string list" where
  "with_label l cs = (if l \<in> set cs then cs else cs @ [l])"

text \<open>The labels and the cells of a frame after the derivation, written out.\<close>

definition derived_labels :: "string list \<Rightarrow> string list" where
  "derived_labels cs = filter (\<lambda>c. c \<notin> set source_columns)
                (with_label ''PAY_AMT_old_std'' (with_label ''PAY_AMT_old_mean''
                (with_label ''BILL_AMT_old_std'' (with_label ''BILL_AMT_old_mean''
                (with_label ''PAY_old_mean'' cs)))))"

definition derived_cell :: "fpu \<Rightarrow> dataframe \<Rightarrow> nat \<Rightarrow> string \<Rightarrow> float64 option" where
  "derived_cell F df i c =
     (if c \<in> set source_columns then None
      else if c = ''PAY_AMT_old_std'' then Some (np_std F (row_values df i old_PAY_AMT) 0)
      else if c = ''PAY_AMT_old_mean'' then Some (np_mean F (row_values df i old_PAY_AMT))
      else if c = ''BILL_AMT_old_std'' then Some (np_std F (row_values df i old_BILL_AMT) 0)
      else if c = ''BILL_AMT_old_mean'' then Some (np_mean F (row_values df i old_BILL_AMT))
      else if c = ''PAY_old_mean'' then Some (np_mean F (row_values df i old_PAY))
      else cell df i c)"

text \<open>
  The header of the sheet, as the labels used in cells 2 to 4 and the feature list printed
  by cell 5 give it.
\<close>

definition sheet_header :: "string list" where
  "sheet_header =
     [''ID'', ''LIMIT_BAL'', ''SEX'', ''EDUCATION'', ''MARRIAGE'', ''AGE'',
      ''PAY_0'', ''PAY_2'', ''PAY_3'', ''PAY_4'', ''PAY_5'', ''PAY_6'',
      ''BILL_AMT1'', ''BILL_AMT2'', ''BILL_AMT3'', ''BILL_AMT4'', ''BILL_AMT5'', ''BILL_AMT6'',
      ''PAY_AMT1'', ''PAY_AMT2'', ''PAY_AMT3'', ''PAY_AMT4'', ''PAY_AMT5'', ''PAY_AMT6'',
      ''default payment next month'']"

text \<open>
  Arithmetic without rounding, on numbers. float64 arithmetic agrees with it wherever the
  exact result is a float64, as on the small integers of the examples below.
\<close>

fun lift1 :: "(real \<Rightarrow> real) \<Rightarrow> float64 \<Rightarrow> float64" where
  "lift1 f (Val a) = Val (f a)"
| "lift1 f _ = NaN"

fun lift2 :: "(real \<Rightarrow> real \<Rightarrow> real) \<Rightarrow> float64 \<Rightarrow> float64 \<Rightarrow> float64" where
  "lift2 f (Val a) (Val b) = Val (f a b)"
| "lift2 f _ _ = NaN"

definition exact :: fpu where
  "exact = \<lparr>fadd = lift2 (+), fsub = lift2 (-), fmul = lift2 (*), fdiv = lift2 (/),
            fsqrt = lift1 sqrt\<rparr>"

text \<open>
  The words of the specification, for comparison with \<open>np_mean\<close> and \<open>np_std\<close>: the
  arithmetic mean of the values of a row, and their population standard deviation, the sum
  of the squared deviations from the mean divided by 4, then the square root. Neither is
  a number unless every value is one; \<open>numbers x\<close> are the values when all cells are numbers.
\<close>

fun numbers :: "float64 list \<Rightarrow> real list option" where
  "numbers [] = Some []"
| "numbers (Val v # x) = map_option ((#) v) (numbers x)"
| "numbers (_ # x) = None"

definition claimed_mean :: "float64 list \<Rightarrow> float64" where
  "claimed_mean x =
     (case numbers x of
        None \<Rightarrow> NaN
      | Some vs \<Rightarrow> Val (sum_list vs / real (length vs)))"

definition claimed_std :: "float64 list \<Rightarrow> float64" where
  "claimed_std x =
     (case numbers x of
        None \<Rightarrow> NaN
      | Some vs \<Rightarrow> let m = sum_list vs / real (length vs)
                   in Val (sqrt (sum_list (map (\<lambda>v. (v - m)\<^sup>2) vs) / 4)))"

subsection \<open>Example data\<close>

text \<open>A small generator with draws in range, seeded by the seed itself.\<close>

definition lcg :: "nat prng" where
  "lcg = \<lparr>RandomState = (\<lambda>seed. seed),
          rk_interval = (\<lambda>mx g. (g mod (mx + 1), (5 * g + 3) mod 16))\<rparr>"

definition example_frame :: dataframe where
  "example_frame =
     \<lparr>columns = [''AGE'', ''PAY_0'', ''PAY_3'', ''PAY_4'', ''PAY_5'', ''PAY_6'',
                 ''BILL_AMT3'', ''BILL_AMT4'', ''BILL_AMT5'', ''BILL_AMT6'',
                 ''PAY_AMT3'', ''PAY_AMT4'', ''PAY_AMT5'', ''PAY_AMT6''],
      vals = map (map Val)
             [[30, 1, 0, 0, 2, 2, 10, 10, 14, 14, 2, 2, 6, 6],
              [41, 0, 1, 1, 1, 1, 5, 5, 5, 5, 1, 1, 5, 5]]\<rparr>"

definition example_result :: dataframe where
  "example_result =
     \<lparr>columns = [''AGE'', ''PAY_1'', ''PAY_old_mean'', ''BILL_AMT_old_mean'',
                 ''BILL_AMT_old_std'', ''PAY_AMT_old_mean'', ''PAY_AMT_old_std''],
      vals = map (map Val)
             [[30, 1, 1, 12, 2, 4, 2],
              [41, 0, 1, 5, 0, 3, 2]]\<rparr>"

text \<open>A frame whose row has missing cells: one in \<^verbatim>\<open>PAY_6\<close>, two in the bill amounts.\<close>

definition gap_frame :: dataframe where
  "gap_frame =
     \<lparr>columns = [''AGE'', ''PAY_0'', ''PAY_3'', ''PAY_4'', ''PAY_5'', ''PAY_6'',
                 ''BILL_AMT3'', ''BILL_AMT4'', ''BILL_AMT5'', ''BILL_AMT6'',
                 ''PAY_AMT3'', ''PAY_AMT4'', ''PAY_AMT5'', ''PAY_AMT6''],
      vals = [[Val 30, Val 1, Val 1, Val 2, Val 3, NaN, Val 1, Val 3, NaN, NaN,
               Val 2, Val 2, Val 6, Val 6]]\<rparr>"

definition gap_result :: dataframe where
  "gap_result =
     \<lparr>columns = [''AGE'', ''PAY_1'', ''PAY_old_mean'', ''BILL_AMT_old_mean'',
                 ''BILL_AMT_old_std'', ''PAY_AMT_old_mean'', ''PAY_AMT_old_std''],
      vals = map (map Val) [[30, 1, 2, 2, 1, 4, 2]]\<rparr>"

definition example_sheet :: dataframe where
  "example_sheet =
     \<lparr>columns = sheet_header,
      vals = map (map Val)
             [[1, 200, 2, 2, 1, 24, 2, 2, 0, 0, 2, 2, 39, 31, 10, 10, 14, 14, 0, 68, 2, 2, 6, 6, 1],
              [2, 120, 2, 2, 2, 26, 0, 2, 1, 1, 1, 1, 26, 17, 5, 5, 5, 5, 0, 10, 3, 3, 3, 3, 0],
              [3, 900, 2, 2, 2, 34, 0, 0, 0, 0, 0, 0, 29, 14, 0, 0, 4, 4, 15, 18, 1, 1, 1, 1, 0]]\<rparr>"

definition example_X :: dataframe where
  "example_X =
     \<lparr>columns = butlast sheet_header,
      vals = map (map Val)
             [[1, 200, 2, 2, 1, 24, 2, 2, 0, 0, 2, 2, 39, 31, 10, 10, 14, 14, 0, 68, 2, 2, 6, 6],
              [2, 120, 2, 2, 2, 26, 0, 2, 1, 1, 1, 1, 26, 17, 5, 5, 5, 5, 0, 10, 3, 3, 3, 3],
              [3, 900, 2, 2, 2, 34, 0, 0, 0, 0, 0, 0, 29, 14, 0, 0, 4, 4, 15, 18, 1, 1, 1, 1]]\<rparr>"

definition example_shuffled_data :: dataframe where
  "example_shuffled_data =
     \<lparr>columns = tl (butlast sheet_header),
      vals = map (map Val)
             [[900, 2, 2, 2, 34, 0, 0, 0, 0, 0, 0, 29, 14, 0, 0, 4, 4, 15, 18, 1, 1, 1, 1],
              [200, 2, 2, 1, 24, 2, 2, 0, 0, 2, 2, 39, 31, 10, 10, 14, 14, 0, 68, 2, 2, 6, 6],
              [120, 2, 2, 2, 26, 0, 2, 1, 1, 1, 1, 26, 17, 5, 5, 5, 5, 0, 10, 3, 3, 3, 3]]\<rparr>"

definition example_features_data :: dataframe where
  "example_features_data =
     \<lparr>columns = [''LIMIT_BAL'', ''SEX'', ''EDUCATION'', ''MARRIAGE'', ''AGE'', ''PAY_1'', ''PAY_2'',
      ''BILL_AMT1'', ''BILL_AMT2'', ''PAY_AMT1'', ''PAY_AMT2'', ''PAY_old_mean'',
      ''BILL_AMT_old_mean'', ''BILL_AMT_old_std'', ''PAY_AMT_old_mean'', ''PAY_AMT_old_std''],
      vals = map (map Val)
             [[900, 2, 2, 2, 34, 0, 0, 29, 14, 15, 18, 0, 2, 2, 1, 0],
              [200, 2, 2, 1, 24, 2, 2, 39, 31, 0, 68, 1, 12, 2, 4, 2],
              [120, 2, 2, 2, 26, 0, 2, 26, 17, 0, 10, 1, 5, 0, 3, 0]]\<rparr>"

definition example_loaded :: "nat kernel" where
  "example_loaded =
     \<lparr>var_X = example_X, var_y = map Val [1, 0, 0], var_data = example_sheet,
      var_rng = None\<rparr>"

definition example_shuffled :: "nat kernel" where
  "example_shuffled =
     \<lparr>var_X = example_X, var_y = map Val [0, 1, 0], var_data = example_shuffled_data,
      var_rng = Some 11\<rparr>"

definition example_featured :: "nat kernel" where
  "example_featured =
     \<lparr>var_X = example_X, var_y = map Val [0, 1, 0], var_data = example_features_data,
      var_rng = Some 11\<rparr>"

section \<open>Properties\<close>

lemma bind_err_Inr [simp]: "bind_err (Inr v) f = f v"
  by (simp add: bind_err_def)

lemma bind_err_Inl [simp]: "bind_err (Inl e) f = Inl e"
  by (simp add: bind_err_def)

lemma bind_err_InrE:
  assumes "bind_err m f = Inr v"
  obtains u where "m = Inr u" and "f u = Inr v"
  using assms by (cases m) (simp_all add: bind_err_def)

subsection \<open>Train/test split\<close>

text \<open>
  C2. For a table of \<open>n\<close> rows and a label array of length \<open>n\<close>, the training partition is
  exactly the first \<open>n div 2\<close> rows and labels and the test partition all the remaining
  ones: every row index lies in exactly one partition, at its original relative position,
  the partitions concatenated in order give back the full data, and the training partition
  has \<open>n div 2\<close> rows.
\<close>

theorem split_halves:
  assumes "length y = length (vals data)"
  shows "let n = length (vals data); k = n div 2; sp = train_test_split data y in
         X_train sp = take k (vals data) \<and> y_train sp = take k y
       \<and> X_test sp = drop k (vals data) \<and> y_test sp = drop k y
       \<and> length (X_train sp) = k \<and> length (y_train sp) = k
       \<and> length (X_test sp) = n - k \<and> length (y_test sp) = n - k
       \<and> X_train sp @ X_test sp = vals data \<and> y_train sp @ y_test sp = y
       \<and> (\<forall>i<n. if i < k then X_train sp ! i = vals data ! i \<and> y_train sp ! i = y ! i
                 else X_test sp ! (i - k) = vals data ! i \<and> y_test sp ! (i - k) = y ! i)"
  using assms by (auto simp: train_test_split_def Let_def)

theorem split_halves_witness:
  "length (map Val [0, 1, 0, 1, 1])
     = length (vals \<lparr>columns = [''A''], vals = map (map Val) [[1], [2], [3], [4], [5]]\<rparr>)
   \<and> train_test_split \<lparr>columns = [''A''], vals = map (map Val) [[1], [2], [3], [4], [5]]\<rparr>
         (map Val [0, 1, 0, 1, 1])
       = \<lparr>feature_names = [''A''], X_train = map (map Val) [[1], [2]],
          X_test = map (map Val) [[3], [4], [5]],
          y_train = map Val [0, 1], y_test = map Val [0, 1, 1]\<rparr>"
  using split_halves [of "map Val [0, 1, 0, 1, 1]"
      "\<lparr>columns = [''A''], vals = map (map Val) [[1], [2], [3], [4], [5]]\<rparr>"]
  by (simp add: train_test_split_def Let_def)

subsection \<open>Grid search\<close>

lemma argmax_less: "ss \<noteq> [] \<Longrightarrow> argmax ss < length ss"
  by (induction ss rule: argmax.induct) (auto simp: Let_def)

lemma linspace_grid: "np_linspace 0.1 1 5 = [0.1, 0.325, 0.55, 0.775, 1]"
  by (simp add: np_linspace_def upt_rec Let_def)

lemma range_3_8: "[3..<8] = [3, 4, 5, 6, 7::nat]"
  by (simp add: upt_rec)

lemma param_grid_set:
  "set param_grid =
     (\<lambda>(d, f). \<lparr>max_depth = d, max_features = f\<rparr>) `
       ({3, 4, 5, 6, 7} \<times> {0.1, 0.325, 0.55, 0.775, 1})"
  unfolding param_grid_def linspace_grid range_3_8 by auto

lemma param_grid_nonempty: "param_grid \<noteq> []"
  unfolding param_grid_def linspace_grid range_3_8 by simp

lemma grid_member:
  fixes D :: "nat set" and F :: "real set"
  assumes "b \<in> (\<lambda>(d, f). \<lparr>max_depth = d, max_features = f\<rparr>) ` (D \<times> F)"
  shows "max_depth b \<in> D \<and> max_features b \<in> F"
  using assms by auto

text \<open>
  C4. Whatever the training set and whatever the cross-validated scores, the selected
  hyperparameters are a candidate of the grid, and the grid is the Cartesian product of the
  depths 3 to 7 and the fractions 0.1, 0.325, 0.55, 0.775 and 1.
\<close>

theorem best_params_in_grid:
  "best_params cv_auc Xtr ytr \<in> set param_grid
   \<and> max_depth (best_params cv_auc Xtr ytr) \<in> {3, 4, 5, 6, 7}
   \<and> max_features (best_params cv_auc Xtr ytr) \<in> {0.1, 0.325, 0.55, 0.775, 1}
   \<and> set param_grid =
       (\<lambda>(d, f). \<lparr>max_depth = d, max_features = f\<rparr>) `
         ({3, 4, 5, 6, 7} \<times> {0.1, 0.325, 0.55, 0.775, 1})"
proof -
  let ?b = "best_params cv_auc Xtr ytr"
  have "argmax (map (cv_auc Xtr ytr) param_grid) < length param_grid"
    using argmax_less [of "map (cv_auc Xtr ytr) param_grid"] param_grid_nonempty by simp
  then have mem: "?b \<in> set param_grid"
    unfolding best_params_def by (rule nth_mem)
  then have "max_depth ?b \<in> {3, 4, 5, 6, 7} \<and> max_features ?b \<in> {0.1, 0.325, 0.55, 0.775, 1}"
    unfolding param_grid_set by (rule grid_member)
  with mem param_grid_set show ?thesis by blast
qed

subsection \<open>Shuffling\<close>









lemma example_load: "cell_load example_sheet = Inr example_loaded"
  by code_simp

lemma example_shuffle: "cell_shuffle lcg example_loaded = Inr example_shuffled"
  by code_simp

text \<open>
  C5. The shuffling cell seeds a fresh generator, so its outcome is a function of the
  features \<open>X\<close> and the labels \<open>y\<close> alone: from two notebook states that agree on them, whatever
  generator state and whatever data an earlier run left behind, the cell produces the same
  state, hence the same row order.
\<close>

theorem shuffle_deterministic:
  assumes "var_X s1 = var_X s2" and "var_y s1 = var_y s2"
  shows "cell_shuffle P s1 = cell_shuffle P s2"
  using assms by (cases s1; cases s2) (simp add: cell_shuffle_def)

theorem shuffle_deterministic_witness:
  "var_X example_loaded = var_X (example_shuffled\<lparr>var_y := map Val [1, 0, 0]\<rparr>)
   \<and> var_y example_loaded = var_y (example_shuffled\<lparr>var_y := map Val [1, 0, 0]\<rparr>)
   \<and> example_loaded \<noteq> example_shuffled\<lparr>var_y := map Val [1, 0, 0]\<rparr>
   \<and> cell_shuffle lcg example_loaded = Inr example_shuffled
   \<and> cell_shuffle lcg (example_shuffled\<lparr>var_y := map Val [1, 0, 0]\<rparr>) = Inr example_shuffled"
proof -
  have x: "var_X example_loaded = var_X (example_shuffled\<lparr>var_y := map Val [1, 0, 0]\<rparr>)"
    and y: "var_y example_loaded = var_y (example_shuffled\<lparr>var_y := map Val [1, 0, 0]\<rparr>)"
    and n: "example_loaded \<noteq> example_shuffled\<lparr>var_y := map Val [1, 0, 0]\<rparr>"
    by (simp_all add: example_loaded_def example_shuffled_def)
  from shuffle_deterministic [OF x y, of lcg] example_shuffle x y n show ?thesis
    by simp
qed

subsection \<open>Data frames\<close>

lemma rect_nth: "rect df \<Longrightarrow> i < length (vals df) \<Longrightarrow> length (vals df ! i) = length (columns df)"
  by (simp add: rect_def list_all_length)

lemma row_get_append:
  "length r = length cols \<Longrightarrow>
   row_get (cols @ [l]) (r @ [v]) c
     = (if c = l \<and> l \<notin> set cols then Some v else row_get cols r c)"
  by (induction r cols rule: list_induct2) (auto simp: row_get_def)

lemma row_get_overwrite:
  "length r = length cols \<Longrightarrow>
   row_get cols (map2 (\<lambda>c x. if c = l then v else x) cols r) c
     = (if c = l \<and> l \<in> set cols then Some v else row_get cols r c)"
  by (induction r cols rule: list_induct2) (auto simp: row_get_def)

lemma row_get_filter:
  "length r = length cols \<Longrightarrow>
   row_get (filter P cols) (map snd (filter (\<lambda>cv. P (fst cv)) (zip cols r))) c
     = (if P c then row_get cols r c else None)"
  by (induction r cols rule: list_induct2) (auto simp: row_get_def)

lemma row_get_None: "length r = length cols \<Longrightarrow> (row_get cols r c = None) = (c \<notin> set cols)"
  by (induction r cols rule: list_induct2) (auto simp: row_get_def)

lemma row_get_rename:
  "length r = length cols \<Longrightarrow> c \<noteq> a \<Longrightarrow> c \<noteq> b \<Longrightarrow>
   row_get (map (\<lambda>c. if c = a then b else c) cols) r c = row_get cols r c"
  by (induction r cols rule: list_induct2) (auto simp: row_get_def)

lemma row_get_renamed:
  "length r = length cols \<Longrightarrow> b \<notin> set cols \<Longrightarrow>
   row_get (map (\<lambda>c. if c = a then b else c) cols) r b = row_get cols r a"
  by (induction r cols rule: list_induct2) (auto simp: row_get_def)

lemma length_filter_zip:
  "length r = length cols \<Longrightarrow>
   length (filter (\<lambda>cv. P (fst cv)) (zip cols r)) = length (filter P cols)"
  by (induction r cols rule: list_induct2) auto

lemma setitem_columns:
  "columns (setitem l s df) = (if l \<in> set (columns df) then columns df else columns df @ [l])"
  by (simp add: setitem_def)

lemma setitem_length: "length s = length (vals df) \<Longrightarrow> length (vals (setitem l s df)) = length (vals df)"
  by (simp add: setitem_def)

lemma setitem_rect: "rect df \<Longrightarrow> rect (setitem l s df)"
  by (auto simp: setitem_def rect_def list_all_iff dest!: set_zip_leftD)

lemma setitem_cell:
  assumes "rect df" and "length s = length (vals df)" and "i < length (vals df)"
  shows "cell (setitem l s df) i c = (if c = l then Some (s ! i) else cell df i c)"
proof -
  have len: "length (vals df ! i) = length (columns df)"
    using assms(1,3) by (rule rect_nth)
  show ?thesis
  proof (cases "l \<in> set (columns df)")
    case True
    then show ?thesis
      using assms(2,3) len by (simp add: setitem_def cell_def row_get_overwrite)
  next
    case False
    then show ?thesis
      using assms(2,3) len by (simp add: setitem_def cell_def row_get_append)
  qed
qed

lemma set_with_label: "set (with_label l cs) = insert l (set cs)"
  by (auto simp: with_label_def)

lemma row_values_cong:
  assumes "\<And>c. c \<in> set cols \<Longrightarrow> cell df' i c = cell df i c"
  shows "row_values df' i cols = row_values df i cols"
  using assms by (simp add: row_values_def)

lemma row_values_length [simp]: "length (row_values df i cols) = length cols"
  by (simp add: row_values_def)

lemma row_values_Some:
  assumes "rect df" and "i < length (vals df)" and "set cols \<subseteq> set (columns df)"
  shows "map (cell df i) cols = map Some (row_values df i cols)"
proof -
  have "cell df i c = Some (the (cell df i c))" if "c \<in> set cols" for c
  proof -
    from that assms(3) have "c \<in> set (columns df)" by blast
    then have "cell df i c \<noteq> None"
      using rect_nth [OF assms(1,2)] by (simp add: cell_def row_get_None)
    then show ?thesis by simp
  qed
  then show ?thesis by (simp add: row_values_def)
qed

lemma drop_cols_step:
  assumes "set ls \<subseteq> set (columns df)"
  shows "\<exists>df'. drop_cols ls df = Inr df'
           \<and> length (vals df') = length (vals df)
           \<and> columns df' = filter (\<lambda>c. c \<notin> set ls) (columns df)
           \<and> (rect df \<longrightarrow> rect df' \<and> (\<forall>i<length (vals df). \<forall>c.
                 cell df' i c = (if c \<in> set ls then None else cell df i c)))"
proof -
  let ?df = "\<lparr>columns = filter (\<lambda>c. c \<notin> set ls) (columns df),
              vals = map (\<lambda>r. map snd (filter (\<lambda>cv. fst cv \<notin> set ls) (zip (columns df) r))) (vals df)\<rparr>"
  have "drop_cols ls df = Inr ?df" using assms by (simp add: drop_cols_def)
  moreover have "rect ?df" if "rect df"
    using that
    by (simp add: rect_def list_all_iff length_filter_zip [where P = "\<lambda>c. c \<notin> set ls"])
  moreover have "cell ?df i c = (if c \<in> set ls then None else cell df i c)"
    if "rect df" and "i < length (vals df)" for i c
    using rect_nth [OF that] that(2)
    by (simp add: cell_def row_get_filter [where P = "\<lambda>c. c \<notin> set ls"])
  ultimately show ?thesis by simp
qed

subsection \<open>Feature engineering\<close>

lemma add_feature_Inr:
  assumes "set cols \<subseteq> set (columns df)"
  shows "add_feature l f cols df
         = Inr (setitem l (map (\<lambda>r. f (map (\<lambda>c. the (row_get (columns df) r c)) cols)) (vals df)) df)"
  using assms by (simp add: add_feature_def getitem_cols_def apply_axis1_def comp_def)

lemma add_feature_Inr_subset:
  assumes "add_feature l f cols df = Inr df'"
  shows "set cols \<subseteq> set (columns df)"
  using assms by (auto simp: add_feature_def getitem_cols_def split: if_splits)

lemma add_feature_step:
  assumes "set cols \<subseteq> set (columns df)"
  shows "\<exists>df'. add_feature l f cols df = Inr df'
           \<and> length (vals df') = length (vals df)
           \<and> columns df' = with_label l (columns df)
           \<and> (rect df \<longrightarrow> rect df' \<and> (\<forall>i<length (vals df). \<forall>c.
                 cell df' i c = (if c = l then Some (f (row_values df i cols)) else cell df i c)))"
proof -
  let ?s = "map (\<lambda>r. f (map (\<lambda>c. the (row_get (columns df) r c)) cols)) (vals df)"
  let ?df = "setitem l ?s df"
  have "add_feature l f cols df = Inr ?df" using assms by (rule add_feature_Inr)
  moreover have "rect ?df" if "rect df" using that by (rule setitem_rect)
  moreover have "length (vals ?df) = length (vals df)" by (simp add: setitem_length)
  moreover have "columns ?df = with_label l (columns df)"
    by (simp add: setitem_columns with_label_def)
  moreover have "cell ?df i c = (if c = l then Some (f (row_values df i cols)) else cell df i c)"
    if "rect df" and "i < length (vals df)" for i c
    using setitem_cell [OF that(1) _ that(2), of ?s l c] that(2)
    by (simp add: row_values_def cell_def)
  ultimately show ?thesis by blast
qed

lemma source_not_derived:
  "''PAY_old_mean'' \<notin> set old_PAY" "''PAY_old_mean'' \<notin> set old_BILL_AMT"
  "''PAY_old_mean'' \<notin> set old_PAY_AMT"
  "''BILL_AMT_old_mean'' \<notin> set old_PAY" "''BILL_AMT_old_mean'' \<notin> set old_BILL_AMT"
  "''BILL_AMT_old_mean'' \<notin> set old_PAY_AMT"
  "''BILL_AMT_old_std'' \<notin> set old_PAY" "''BILL_AMT_old_std'' \<notin> set old_BILL_AMT"
  "''BILL_AMT_old_std'' \<notin> set old_PAY_AMT"
  "''PAY_AMT_old_mean'' \<notin> set old_PAY" "''PAY_AMT_old_mean'' \<notin> set old_BILL_AMT"
  "''PAY_AMT_old_mean'' \<notin> set old_PAY_AMT"
  "''PAY_AMT_old_std'' \<notin> set old_PAY" "''PAY_AMT_old_std'' \<notin> set old_BILL_AMT"
  "''PAY_AMT_old_std'' \<notin> set old_PAY_AMT"
  by (simp_all add: old_PAY_def old_BILL_AMT_def old_PAY_AMT_def)

lemma derive_features_char:
  assumes "set source_columns \<subseteq> set (columns df)"
  shows "\<exists>df'. derive_features F df = Inr df'
           \<and> length (vals df') = length (vals df)
           \<and> columns df' = derived_labels (columns df)
           \<and> (rect df \<longrightarrow> rect df' \<and>
                (\<forall>i<length (vals df). \<forall>c. cell df' i c = derived_cell F df i c))"
proof -
  let ?n = "length (vals df)"
  have p0: "set old_PAY \<subseteq> set (columns df)" and b0: "set old_BILL_AMT \<subseteq> set (columns df)"
    and a0: "set old_PAY_AMT \<subseteq> set (columns df)"
    using assms by auto
  from add_feature_step [OF p0, of "''PAY_old_mean''" "np_mean F"]
  obtain d1 where e1: "add_feature ''PAY_old_mean'' (np_mean F) old_PAY df = Inr d1"
    and n1: "length (vals d1) = ?n"
    and c1: "columns d1 = with_label ''PAY_old_mean'' (columns df)"
    and v1: "rect df \<longrightarrow> rect d1 \<and> (\<forall>i<?n. \<forall>c. cell d1 i c =
               (if c = ''PAY_old_mean'' then Some (np_mean F (row_values df i old_PAY)) else cell df i c))"
    by blast
  have b1: "set old_BILL_AMT \<subseteq> set (columns d1)" and a1: "set old_PAY_AMT \<subseteq> set (columns d1)"
    using b0 a0 c1 by (auto simp: set_with_label)
  from add_feature_step [OF b1, of "''BILL_AMT_old_mean''" "np_mean F"]
  obtain d2 where e2: "add_feature ''BILL_AMT_old_mean'' (np_mean F) old_BILL_AMT d1 = Inr d2"
    and n2: "length (vals d2) = ?n"
    and c2: "columns d2 = with_label ''BILL_AMT_old_mean'' (columns d1)"
    and v2: "rect d1 \<longrightarrow> rect d2 \<and> (\<forall>i<?n. \<forall>c. cell d2 i c =
               (if c = ''BILL_AMT_old_mean'' then Some (np_mean F (row_values d1 i old_BILL_AMT))
                else cell d1 i c))"
    using n1 by auto
  have b2: "set old_BILL_AMT \<subseteq> set (columns d2)" and a2: "set old_PAY_AMT \<subseteq> set (columns d2)"
    using b1 a1 c2 by (auto simp: set_with_label)
  from add_feature_step [OF b2, of "''BILL_AMT_old_std''" "\<lambda>x. np_std F x 0"]
  obtain d3 where e3: "add_feature ''BILL_AMT_old_std'' (\<lambda>x. np_std F x 0) old_BILL_AMT d2 = Inr d3"
    and n3: "length (vals d3) = ?n"
    and c3: "columns d3 = with_label ''BILL_AMT_old_std'' (columns d2)"
    and v3: "rect d2 \<longrightarrow> rect d3 \<and> (\<forall>i<?n. \<forall>c. cell d3 i c =
               (if c = ''BILL_AMT_old_std'' then Some (np_std F (row_values d2 i old_BILL_AMT) 0)
                else cell d2 i c))"
    using n2 by auto
  have a3: "set old_PAY_AMT \<subseteq> set (columns d3)"
    using a2 c3 by (auto simp: set_with_label)
  from add_feature_step [OF a3, of "''PAY_AMT_old_mean''" "np_mean F"]
  obtain d4 where e4: "add_feature ''PAY_AMT_old_mean'' (np_mean F) old_PAY_AMT d3 = Inr d4"
    and n4: "length (vals d4) = ?n"
    and c4: "columns d4 = with_label ''PAY_AMT_old_mean'' (columns d3)"
    and v4: "rect d3 \<longrightarrow> rect d4 \<and> (\<forall>i<?n. \<forall>c. cell d4 i c =
               (if c = ''PAY_AMT_old_mean'' then Some (np_mean F (row_values d3 i old_PAY_AMT))
                else cell d3 i c))"
    using n3 by auto
  have a4: "set old_PAY_AMT \<subseteq> set (columns d4)"
    using a3 c4 by (auto simp: set_with_label)
  from add_feature_step [OF a4, of "''PAY_AMT_old_std''" "\<lambda>x. np_std F x 0"]
  obtain d5 where e5: "add_feature ''PAY_AMT_old_std'' (\<lambda>x. np_std F x 0) old_PAY_AMT d4 = Inr d5"
    and n5: "length (vals d5) = ?n"
    and c5: "columns d5 = with_label ''PAY_AMT_old_std'' (columns d4)"
    and v5: "rect d4 \<longrightarrow> rect d5 \<and> (\<forall>i<?n. \<forall>c. cell d5 i c =
               (if c = ''PAY_AMT_old_std'' then Some (np_std F (row_values d4 i old_PAY_AMT) 0)
                else cell d4 i c))"
    using n4 by auto
  have s5: "set source_columns \<subseteq> set (columns d5)"
    using assms c1 c2 c3 c4 c5 by (auto simp: set_with_label)
  from drop_cols_step [OF s5]
  obtain d6 where e6: "drop_cols source_columns d5 = Inr d6"
    and n6: "length (vals d6) = ?n"
    and c6: "columns d6 = filter (\<lambda>c. c \<notin> set source_columns) (columns d5)"
    and v6: "rect d5 \<longrightarrow> rect d6 \<and>
               (\<forall>i<?n. \<forall>c. cell d6 i c = (if c \<in> set source_columns then None else cell d5 i c))"
    using n5 by auto
  have "derive_features F df = Inr d6"
    by (simp add: derive_features_def e1 e2 e3 e4 e5 e6)
  moreover have "columns d6 = derived_labels (columns df)"
    by (simp only: c1 c2 c3 c4 c5 c6 derived_labels_def)
  moreover have "rect d6 \<and> (\<forall>i<?n. \<forall>c. cell d6 i c = derived_cell F df i c)" if r0: "rect df"
  proof -
    from r0 v1 have r1: "rect d1" and u1: "\<forall>i<?n. \<forall>c. cell d1 i c =
        (if c = ''PAY_old_mean'' then Some (np_mean F (row_values df i old_PAY)) else cell df i c)"
      by blast+
    from r1 v2 have r2: "rect d2" and u2: "\<forall>i<?n. \<forall>c. cell d2 i c =
        (if c = ''BILL_AMT_old_mean'' then Some (np_mean F (row_values d1 i old_BILL_AMT))
         else cell d1 i c)"
      by blast+
    from r2 v3 have r3: "rect d3" and u3: "\<forall>i<?n. \<forall>c. cell d3 i c =
        (if c = ''BILL_AMT_old_std'' then Some (np_std F (row_values d2 i old_BILL_AMT) 0)
         else cell d2 i c)"
      by blast+
    from r3 v4 have r4: "rect d4" and u4: "\<forall>i<?n. \<forall>c. cell d4 i c =
        (if c = ''PAY_AMT_old_mean'' then Some (np_mean F (row_values d3 i old_PAY_AMT))
         else cell d3 i c)"
      by blast+
    from r4 v5 have r5: "rect d5" and u5: "\<forall>i<?n. \<forall>c. cell d5 i c =
        (if c = ''PAY_AMT_old_std'' then Some (np_std F (row_values d4 i old_PAY_AMT) 0)
         else cell d4 i c)"
      by blast+
    from r5 v6 have r6: "rect d6" and u6: "\<forall>i<?n. \<forall>c. cell d6 i c =
        (if c \<in> set source_columns then None else cell d5 i c)"
      by blast+
    have "cell d6 i c = derived_cell F df i c" if i: "i < ?n" for i c
    proof -
      have w1: "row_values d1 i old_BILL_AMT = row_values df i old_BILL_AMT"
        using u1 i by (intro row_values_cong) (auto simp: old_BILL_AMT_def)
      have w2: "row_values d2 i old_BILL_AMT = row_values df i old_BILL_AMT"
        using u1 u2 i by (intro row_values_cong) (auto simp: old_BILL_AMT_def)
      have w3: "row_values d3 i old_PAY_AMT = row_values df i old_PAY_AMT"
        using u1 u2 u3 i by (intro row_values_cong) (auto simp: old_PAY_AMT_def)
      have w4: "row_values d4 i old_PAY_AMT = row_values df i old_PAY_AMT"
        using u1 u2 u3 u4 i by (intro row_values_cong) (auto simp: old_PAY_AMT_def)
      show ?thesis
        by (simp only: u1 [rule_format, OF i] u2 [rule_format, OF i] u3 [rule_format, OF i]
              u4 [rule_format, OF i] u5 [rule_format, OF i] u6 [rule_format, OF i]
              w1 w2 w3 w4 derived_cell_def)
    qed
    with r6 show ?thesis by blast
  qed
  ultimately show ?thesis using n6 by blast
qed

lemma rename_vals [simp]: "vals (rename_columns m df) = vals df"
  by (simp add: rename_columns_def)

lemma rename_rect [simp]: "rect (rename_columns m df) = rect df"
  by (simp add: rename_columns_def rect_def)

lemma rename_pay_columns:
  "columns (rename_columns pay_rename df)
   = map (\<lambda>c. if c = ''PAY_0'' then ''PAY_1'' else c) (columns df)"
  by (simp add: rename_columns_def)

lemma rename_cell_other:
  assumes "rect df" and "i < length (vals df)" and "c \<noteq> ''PAY_0''" and "c \<noteq> ''PAY_1''"
  shows "cell (rename_columns pay_rename df) i c = cell df i c"
  using rect_nth [OF assms(1,2)] assms(3,4)
  by (simp add: cell_def rename_pay_columns row_get_rename)

lemma rename_cell_PAY_1:
  assumes "rect df" and "i < length (vals df)" and "''PAY_1'' \<notin> set (columns df)"
  shows "cell (rename_columns pay_rename df) i ''PAY_1'' = cell df i ''PAY_0''"
  using rect_nth [OF assms(1,2)] assms(3)
  by (simp add: cell_def rename_pay_columns row_get_renamed)

lemma rename_absent:
  assumes "''PAY_0'' \<notin> set (columns df)"
  shows "rename_columns pay_rename df = df"
proof -
  have e: "map (\<lambda>c. case pay_rename c of Some c' \<Rightarrow> c' | None \<Rightarrow> c) (columns df) = columns df"
    using assms by (intro map_idI) auto
  show ?thesis by (simp only: rename_columns_def e) simp
qed

lemma rename_source_columns:
  assumes "set source_columns \<subseteq> set (columns df)"
  shows "set source_columns \<subseteq> set (columns (rename_columns pay_rename df))"
proof
  fix c assume c: "c \<in> set source_columns"
  then have "c \<noteq> ''PAY_0''" by (auto simp: old_PAY_def old_BILL_AMT_def old_PAY_AMT_def)
  moreover from c assms have "c \<in> set (columns df)" by blast
  ultimately show "c \<in> set (columns (rename_columns pay_rename df))"
    by (force simp: rename_columns_def)
qed

lemma rename_row_values:
  assumes "rect df" and "i < length (vals df)" and "set cols \<subseteq> set source_columns"
  shows "row_values (rename_columns pay_rename df) i cols = row_values df i cols"
proof (rule row_values_cong)
  fix c assume "c \<in> set cols"
  with assms(3) have "c \<in> set source_columns" by blast
  then have "c \<noteq> ''PAY_0''" and "c \<noteq> ''PAY_1''"
    by (auto simp: old_PAY_def old_BILL_AMT_def old_PAY_AMT_def)
  with assms(1,2) show "cell (rename_columns pay_rename df) i c = cell df i c"
    by (rule rename_cell_other)
qed

lemma feature_engineering_char:
  assumes "set source_columns \<subseteq> set (columns df)"
  shows "\<exists>df'. feature_engineering F df = Inr df'
           \<and> length (vals df') = length (vals df)
           \<and> columns df' = derived_labels (columns (rename_columns pay_rename df))
           \<and> (rect df \<longrightarrow> rect df' \<and>
                (\<forall>i<length (vals df). \<forall>c.
                   cell df' i c = derived_cell F (rename_columns pay_rename df) i c))"
  using derive_features_char [OF rename_source_columns [OF assms], where F = F]
  by (simp add: feature_engineering_def)

lemma derived_cell_rename:
  assumes "rect df" and "i < length (vals df)"
  shows "derived_cell F (rename_columns pay_rename df) i c
         = (if c \<in> set source_columns then None
            else if c = ''PAY_AMT_old_std'' then Some (np_std F (row_values df i old_PAY_AMT) 0)
            else if c = ''PAY_AMT_old_mean'' then Some (np_mean F (row_values df i old_PAY_AMT))
            else if c = ''BILL_AMT_old_std'' then Some (np_std F (row_values df i old_BILL_AMT) 0)
            else if c = ''BILL_AMT_old_mean'' then Some (np_mean F (row_values df i old_BILL_AMT))
            else if c = ''PAY_old_mean'' then Some (np_mean F (row_values df i old_PAY))
            else cell (rename_columns pay_rename df) i c)"
proof -
  have "row_values (rename_columns pay_rename df) i old_PAY = row_values df i old_PAY"
    and "row_values (rename_columns pay_rename df) i old_BILL_AMT = row_values df i old_BILL_AMT"
    and "row_values (rename_columns pay_rename df) i old_PAY_AMT = row_values df i old_PAY_AMT"
    using assms by (auto intro!: rename_row_values)
  then show ?thesis by (simp only: derived_cell_def)
qed

lemma feature_engineering_cells:
  assumes "rect data" and "set source_columns \<subseteq> set (columns data)"
    and "feature_engineering F data = Inr data'" and "i < length (vals data)"
  shows "cell data' i c
         = (if c \<in> set source_columns then None
            else if c = ''PAY_AMT_old_std'' then Some (np_std F (row_values data i old_PAY_AMT) 0)
            else if c = ''PAY_AMT_old_mean'' then Some (np_mean F (row_values data i old_PAY_AMT))
            else if c = ''BILL_AMT_old_std'' then Some (np_std F (row_values data i old_BILL_AMT) 0)
            else if c = ''BILL_AMT_old_mean'' then Some (np_mean F (row_values data i old_BILL_AMT))
            else if c = ''PAY_old_mean'' then Some (np_mean F (row_values data i old_PAY))
            else cell (rename_columns pay_rename data) i c)"
proof -
  from feature_engineering_char [OF assms(2), where F = F] assms(1,3,4)
  have "cell data' i c = derived_cell F (rename_columns pay_rename data) i c"
    by auto
  then show ?thesis
    unfolding derived_cell_rename [OF assms(1,4)] .
qed

lemma feature_engineering_Inr_columns:
  assumes "feature_engineering F df = Inr df'"
  shows "columns df' = derived_labels (columns (rename_columns pay_rename df))"
proof -
  let ?r = "rename_columns pay_rename df"
  from assms have d: "derive_features F ?r = Inr df'"
    by (simp add: feature_engineering_def)
  then obtain d1 d2 d3 d4 d5
    where e1: "add_feature ''PAY_old_mean'' (np_mean F) old_PAY ?r = Inr d1"
      and e2: "add_feature ''BILL_AMT_old_mean'' (np_mean F) old_BILL_AMT d1 = Inr d2"
      and e3: "add_feature ''BILL_AMT_old_std'' (\<lambda>x. np_std F x 0) old_BILL_AMT d2 = Inr d3"
      and e4: "add_feature ''PAY_AMT_old_mean'' (np_mean F) old_PAY_AMT d3 = Inr d4"
      and e5: "add_feature ''PAY_AMT_old_std'' (\<lambda>x. np_std F x 0) old_PAY_AMT d4 = Inr d5"
      and e6: "drop_cols source_columns d5 = Inr df'"
    unfolding derive_features_def by (elim bind_err_InrE) blast
  have p: "set old_PAY \<subseteq> set (columns ?r)" using e1 by (rule add_feature_Inr_subset)
  from add_feature_step [OF p, of "''PAY_old_mean''" "np_mean F"] e1
  have c1: "columns d1 = with_label ''PAY_old_mean'' (columns ?r)" by auto
  have "set old_BILL_AMT \<subseteq> set (columns d1)" using e2 by (rule add_feature_Inr_subset)
  then have b: "set old_BILL_AMT \<subseteq> set (columns ?r)"
    unfolding c1 set_with_label using source_not_derived by auto
  from e4 have "set old_PAY_AMT \<subseteq> set (columns d3)" by (rule add_feature_Inr_subset)
  moreover have "set (columns d3) \<subseteq> insert ''BILL_AMT_old_std'' (insert ''BILL_AMT_old_mean'' (set (columns d1)))"
    using add_feature_step [OF add_feature_Inr_subset [OF e2], of "''BILL_AMT_old_mean''" "np_mean F"]
      add_feature_step [OF add_feature_Inr_subset [OF e3], of "''BILL_AMT_old_std''" "\<lambda>x. np_std F x 0"]
      e2 e3 by (auto simp: set_with_label)
  ultimately have a: "set old_PAY_AMT \<subseteq> set (columns ?r)"
    unfolding c1 set_with_label using source_not_derived by auto
  from p b a have "set source_columns \<subseteq> set (columns ?r)" by simp
  from derive_features_char [OF this, where F = F] d show ?thesis by auto
qed

lemma set_derived_labels: "set (derived_labels cs) \<subseteq> set cs \<union> set derived_columns"
  by (auto simp: derived_labels_def set_with_label derived_columns_def)

lemmas frame_ops = feature_engineering_def derive_features_def add_feature_def
  getitem_cols_def apply_axis1_def setitem_def drop_cols_def rename_columns_def row_get_def
  old_PAY_def old_BILL_AMT_def old_PAY_AMT_def np_mean_def np_std_def fsum_def exact_def
  present_def

lemma example_features: "feature_engineering exact example_frame = Inr example_result"
  by (simp add: example_frame_def example_result_def frame_ops)

lemma example_frame_wf: "well_formed example_frame"
  by (simp add: well_formed_def rect_def example_frame_def)

lemma example_frame_source: "set source_columns \<subseteq> set (columns example_frame)"
  by (simp add: example_frame_def old_PAY_def old_BILL_AMT_def old_PAY_AMT_def)

text \<open>
  C1. On every table that contains the twelve source columns the feature cell succeeds;
  afterwards none of the twelve is a column, each of the five derived columns is one, and
  the number of rows is the same.
\<close>

theorem derivation_columns:
  assumes "set source_columns \<subseteq> set (columns data)"
  shows "\<exists>data'. feature_engineering F data = Inr data'
           \<and> set source_columns \<inter> set (columns data') = {}
           \<and> set derived_columns \<subseteq> set (columns data')
           \<and> length (vals data') = length (vals data)"
proof -
  from feature_engineering_char [OF assms, where F = F]
  obtain data' where e: "feature_engineering F data = Inr data'"
    and n: "length (vals data') = length (vals data)"
    and c: "columns data' = derived_labels (columns (rename_columns pay_rename data))"
    by blast
  have "set source_columns \<inter> set (columns data') = {}"
    unfolding c derived_labels_def by auto
  moreover have "set derived_columns \<subseteq> set (columns data')"
    unfolding c derived_labels_def derived_columns_def
    by (simp add: set_with_label old_PAY_def old_BILL_AMT_def old_PAY_AMT_def)
  ultimately show ?thesis using e n by blast
qed

theorem derivation_columns_witness:
  "set source_columns \<subseteq> set (columns example_frame)
   \<and> feature_engineering exact example_frame = Inr example_result
   \<and> set source_columns \<inter> set (columns example_result) = {}
   \<and> set derived_columns \<subseteq> set (columns example_result)
   \<and> length (vals example_result) = length (vals example_frame)"
  using derivation_columns [OF example_frame_source, where F = exact] example_features example_frame_source
  by auto

lemma present_Val [simp]: "present (map Val xs) = map Val xs"
  by (induction xs) (simp_all add: present_def)

lemma present_present [simp]: "present (present x) = present x"
  by (simp add: present_def)

lemma np_mean_present: "np_mean F x = np_mean F (present x)"
  by (simp add: np_mean_def)

lemma np_std_present: "np_std F x ddof = np_std F (present x) ddof"
  by (simp add: np_std_def)

lemma np_mean_four:
  "np_mean F [Val a, Val b, Val c, Val d]
   = fdiv F (fadd F (fadd F (fadd F (fadd F (Val 0) (Val a)) (Val b)) (Val c)) (Val d)) (Val 4)"
  by (simp add: np_mean_def fsum_def present_def)

lemma np_mean_four_exact: "np_mean exact [Val a, Val b, Val c, Val d] = Val ((a + b + c + d) / 4)"
  by (simp add: np_mean_four exact_def)

lemma np_std_four:
  "np_std F [Val a, Val b, Val c, Val d] ddof =
     (if 4 \<le> ddof then NaN
      else let avg = fdiv F (fadd F (fadd F (fadd F (fadd F (Val 0) (Val a)) (Val b)) (Val c))
                               (Val d)) (Val 4);
               sq = (\<lambda>v. fmul F (fsub F avg v) (fsub F avg v))
           in fsqrt F (fdiv F (fadd F (fadd F (fadd F (fadd F (Val 0) (sq (Val a))) (sq (Val b)))
                                        (sq (Val c))) (sq (Val d)))
                        (Val (real (4 - ddof)))))"
  by (simp add: np_std_def fsum_def present_def Let_def)

lemma np_std_four_exact_0:
  "np_std exact [Val a, Val b, Val c, Val d] 0 =
     (let m = (a + b + c + d) / 4
      in Val (sqrt (((a - m)\<^sup>2 + (b - m)\<^sup>2 + (c - m)\<^sup>2 + (d - m)\<^sup>2) / 4)))"
  by (simp add: np_std_four exact_def Let_def power2_eq_square [symmetric] power2_commute [of _ a]
      power2_commute [of _ b] power2_commute [of _ c] power2_commute [of _ d])

lemma np_std_four_exact_1:
  "np_std exact [Val a, Val b, Val c, Val d] 1 =
     (let m = (a + b + c + d) / 4
      in Val (sqrt (((a - m)\<^sup>2 + (b - m)\<^sup>2 + (c - m)\<^sup>2 + (d - m)\<^sup>2) / 3)))"
  by (simp add: np_std_four exact_def Let_def power2_eq_square [symmetric] power2_commute [of _ a]
      power2_commute [of _ b] power2_commute [of _ c] power2_commute [of _ d])

lemma gap_features: "feature_engineering exact gap_frame = Inr gap_result"
  by (simp add: gap_frame_def gap_result_def frame_ops)

lemma gap_frame_wf: "well_formed gap_frame"
  by (simp add: well_formed_def rect_def gap_frame_def)

lemma gap_frame_source: "set source_columns \<subseteq> set (columns gap_frame)"
  by (simp add: gap_frame_def old_PAY_def old_BILL_AMT_def old_PAY_AMT_def)

text \<open>
  C3, as stated, fails on a row with a missing cell. With \<^verbatim>\<open>PAY_3..PAY_6\<close> holding 1, 2, 3
  and a missing cell, the notebook stores 2, the mean of the three present values; the
  arithmetic mean of the four cells is no number, and the sum of the present ones divided
  by 4 is 1.5. All float64 operations on this row are exact.
\<close>

theorem missing_cell_mean_counterexample:
  "well_formed gap_frame
   \<and> set source_columns \<subseteq> set (columns gap_frame)
   \<and> feature_engineering exact gap_frame = Inr gap_result
   \<and> row_values gap_frame 0 old_PAY = [Val 1, Val 2, Val 3, NaN]
   \<and> cell gap_result 0 ''PAY_old_mean'' = Some (Val 2)
   \<and> claimed_mean (row_values gap_frame 0 old_PAY) = NaN
   \<and> cell gap_result 0 ''PAY_old_mean'' \<noteq> Some (claimed_mean (row_values gap_frame 0 old_PAY))
   \<and> cell gap_result 0 ''PAY_old_mean'' \<noteq> Some (Val ((1 + 2 + 3) / 4))"
proof -
  have r: "row_values gap_frame 0 old_PAY = [Val 1, Val 2, Val 3, NaN]"
    by (simp add: row_values_def cell_def row_get_def gap_frame_def old_PAY_def)
  have c: "cell gap_result 0 ''PAY_old_mean'' = Some (Val 2)"
    by (simp add: cell_def row_get_def gap_result_def)
  have m: "claimed_mean [Val 1, Val 2, Val 3, NaN] = NaN"
    by (simp add: claimed_mean_def)
  from gap_frame_wf gap_frame_source gap_features r c m show ?thesis by simp
qed

text \<open>
  C3, amended. For every row, each of the five derived cells is the notebook's aggregate of
  that row's own cells in the four source columns of its group: \<^verbatim>\<open>np.mean\<close> for the three
  mean columns, \<^verbatim>\<open>np.std\<close> with \<open>ddof = 0\<close> for the two standard-deviation columns, whatever
  the rounding of the float64 operations. On four present cells \<^verbatim>\<open>np.mean\<close> is the float64
  evaluation of \<open>(((0 + a) + b) + c) + d\<close> divided by 4, which without rounding is the
  arithmetic mean; missing cells are left out of the aggregate.
\<close>

theorem derived_values:
  assumes "well_formed data" and "set source_columns \<subseteq> set (columns data)"
    and "feature_engineering F data = Inr data'" and "i < length (vals data)"
  shows "map (cell data i) old_PAY = map Some (row_values data i old_PAY)
       \<and> map (cell data i) old_BILL_AMT = map Some (row_values data i old_BILL_AMT)
       \<and> map (cell data i) old_PAY_AMT = map Some (row_values data i old_PAY_AMT)
       \<and> cell data' i ''PAY_old_mean'' = Some (np_mean F (row_values data i old_PAY))
       \<and> cell data' i ''BILL_AMT_old_mean'' = Some (np_mean F (row_values data i old_BILL_AMT))
       \<and> cell data' i ''BILL_AMT_old_std'' = Some (np_std F (row_values data i old_BILL_AMT) 0)
       \<and> cell data' i ''PAY_AMT_old_mean'' = Some (np_mean F (row_values data i old_PAY_AMT))
       \<and> cell data' i ''PAY_AMT_old_std'' = Some (np_std F (row_values data i old_PAY_AMT) 0)
       \<and> np_mean F [Val a, Val b, Val c, Val d]
           = fdiv F (fadd F (fadd F (fadd F (fadd F (Val 0) (Val a)) (Val b)) (Val c)) (Val d))
               (Val 4)
       \<and> np_mean exact [Val a, Val b, Val c, Val d] = Val ((a + b + c + d) / 4)
       \<and> np_mean F x = np_mean F (present x)
       \<and> np_std F x 0 = np_std F (present x) 0"
proof -
  have r: "rect data" using assms(1) by (simp add: well_formed_def)
  note d = feature_engineering_cells [OF r assms(2,3,4)]
  have 1: "map (cell data i) old_PAY = map Some (row_values data i old_PAY)"
    and 2: "map (cell data i) old_BILL_AMT = map Some (row_values data i old_BILL_AMT)"
    and 3: "map (cell data i) old_PAY_AMT = map Some (row_values data i old_PAY_AMT)"
    using assms(2) by (auto intro!: row_values_Some [OF r assms(4)])
  have 4: "cell data' i ''PAY_old_mean'' = Some (np_mean F (row_values data i old_PAY))"
    by (simp add: d source_not_derived)
  have 5: "cell data' i ''BILL_AMT_old_mean'' = Some (np_mean F (row_values data i old_BILL_AMT))"
    by (simp add: d source_not_derived)
  have 6: "cell data' i ''BILL_AMT_old_std'' = Some (np_std F (row_values data i old_BILL_AMT) 0)"
    by (simp add: d source_not_derived)
  have 7: "cell data' i ''PAY_AMT_old_mean'' = Some (np_mean F (row_values data i old_PAY_AMT))"
    by (simp add: d source_not_derived)
  have 8: "cell data' i ''PAY_AMT_old_std'' = Some (np_std F (row_values data i old_PAY_AMT) 0)"
    by (simp add: d source_not_derived)
  from 1 2 3 4 5 6 7 8 np_mean_four [of F a b c d] np_mean_four_exact [of a b c d]
    np_mean_present [of F x] np_std_present [of F x 0]
  show ?thesis by blast
qed

theorem derived_values_witness:
  "well_formed example_frame
   \<and> set source_columns \<subseteq> set (columns example_frame)
   \<and> feature_engineering exact example_frame = Inr example_result
   \<and> (0::nat) < length (vals example_frame)
   \<and> row_values example_frame 0 old_PAY = [Val 0, Val 0, Val 2, Val 2]
   \<and> row_values example_frame 0 old_BILL_AMT = [Val 10, Val 10, Val 14, Val 14]
   \<and> row_values example_frame 0 old_PAY_AMT = [Val 2, Val 2, Val 6, Val 6]
   \<and> cell example_result 0 ''PAY_old_mean'' = Some (np_mean exact [Val 0, Val 0, Val 2, Val 2])
   \<and> np_mean exact [Val 0, Val 0, Val 2, Val 2] = Val 1
   \<and> cell example_result 0 ''BILL_AMT_old_mean'' = Some (Val 12)
   \<and> cell example_result 0 ''BILL_AMT_old_std'' = Some (Val 2)
   \<and> cell example_result 0 ''PAY_AMT_old_mean'' = Some (Val 4)
   \<and> cell example_result 0 ''PAY_AMT_old_std'' = Some (Val 2)"
proof -
  have i: "(0::nat) < length (vals example_frame)" by (simp add: example_frame_def)
  have v: "row_values example_frame 0 old_PAY = [Val 0, Val 0, Val 2, Val 2]"
    "row_values example_frame 0 old_BILL_AMT = [Val 10, Val 10, Val 14, Val 14]"
    "row_values example_frame 0 old_PAY_AMT = [Val 2, Val 2, Val 6, Val 6]"
    by (simp_all add: row_values_def cell_def row_get_def example_frame_def
        old_PAY_def old_BILL_AMT_def old_PAY_AMT_def)
  have c: "cell example_result 0 ''PAY_old_mean'' = Some (Val 1)"
    "cell example_result 0 ''BILL_AMT_old_mean'' = Some (Val 12)"
    "cell example_result 0 ''BILL_AMT_old_std'' = Some (Val 2)"
    "cell example_result 0 ''PAY_AMT_old_mean'' = Some (Val 4)"
    "cell example_result 0 ''PAY_AMT_old_std'' = Some (Val 2)"
    by (simp_all add: cell_def row_get_def example_result_def)
  note t = derived_values [OF example_frame_wf example_frame_source example_features i,
      of 0 0 2 2 "[]"]
  from t [THEN conjunct2, THEN conjunct2, THEN conjunct2, THEN conjunct1]
  have 1: "cell example_result 0 ''PAY_old_mean''
           = Some (np_mean exact [Val 0, Val 0, Val 2, Val 2])"
    by (simp only: v)
  from t [THEN conjunct2, THEN conjunct2, THEN conjunct2, THEN conjunct2, THEN conjunct2,
      THEN conjunct2, THEN conjunct2, THEN conjunct2, THEN conjunct2, THEN conjunct1]
  have 2: "np_mean exact [Val 0, Val 0, Val 2, Val 2] = Val 1"
    by simp
  from example_frame_wf example_frame_source example_features i v c 1 2 show ?thesis by blast
qed

text \<open>
  C8, as stated, fails on a row with missing cells. With \<^verbatim>\<open>BILL_AMT3..BILL_AMT6\<close> holding
  1, 3 and two missing cells, the notebook stores 1: the squared deviations 1 and 1 from the
  mean 2 are divided by 2, the number of present cells, not by 4. All float64 operations on
  this row are exact.
\<close>

theorem missing_cell_std_counterexample:
  "well_formed gap_frame
   \<and> set source_columns \<subseteq> set (columns gap_frame)
   \<and> feature_engineering exact gap_frame = Inr gap_result
   \<and> row_values gap_frame 0 old_BILL_AMT = [Val 1, Val 3, NaN, NaN]
   \<and> cell gap_result 0 ''BILL_AMT_old_std'' = Some (Val 1)
   \<and> claimed_std (row_values gap_frame 0 old_BILL_AMT) = NaN
   \<and> cell gap_result 0 ''BILL_AMT_old_std''
       \<noteq> Some (claimed_std (row_values gap_frame 0 old_BILL_AMT))
   \<and> cell gap_result 0 ''BILL_AMT_old_std'' \<noteq> Some (Val (sqrt (((1 - 2)\<^sup>2 + (3 - 2)\<^sup>2) / 4)))"
proof -
  have r: "row_values gap_frame 0 old_BILL_AMT = [Val 1, Val 3, NaN, NaN]"
    by (simp add: row_values_def cell_def row_get_def gap_frame_def old_BILL_AMT_def)
  have c: "cell gap_result 0 ''BILL_AMT_old_std'' = Some (Val 1)"
    by (simp add: cell_def row_get_def gap_result_def)
  have m: "claimed_std [Val 1, Val 3, NaN, NaN] = NaN"
    by (simp add: claimed_std_def)
  have "sqrt ((((1::real) - 2)\<^sup>2 + (3 - 2)\<^sup>2) / 4) \<noteq> 1"
    by simp
  with gap_frame_wf gap_frame_source gap_features r c m show ?thesis by simp
qed

text \<open>
  C8, amended. For every row, each standard-deviation column holds \<^verbatim>\<open>np.std\<close> with
  \<open>ddof = 0\<close> of the row's own cells in the four source columns. On four present cells this
  is the float64 evaluation of the square root of the sum of the squared deviations from the
  mean divided by 4; with \<open>ddof = 1\<close> the divisor would be 3. Without rounding the two are the
  population and the sample standard deviation, and they differ unless all four values are
  equal. Missing cells are left out, so that the divisor is the number of present cells.
\<close>

theorem std_is_population:
  assumes "well_formed data" and "set source_columns \<subseteq> set (columns data)"
    and "feature_engineering F data = Inr data'" and "i < length (vals data)"
  shows "cell data' i ''BILL_AMT_old_std'' = Some (np_std F (row_values data i old_BILL_AMT) 0)
       \<and> cell data' i ''PAY_AMT_old_std'' = Some (np_std F (row_values data i old_PAY_AMT) 0)
       \<and> np_std F [Val a, Val b, Val c, Val d] 0 =
           (let avg = fdiv F (fadd F (fadd F (fadd F (fadd F (Val 0) (Val a)) (Val b)) (Val c))
                                (Val d)) (Val 4);
                sq = (\<lambda>v. fmul F (fsub F avg v) (fsub F avg v))
            in fsqrt F (fdiv F (fadd F (fadd F (fadd F (fadd F (Val 0) (sq (Val a))) (sq (Val b)))
                                         (sq (Val c))) (sq (Val d)))
                         (Val 4)))
       \<and> np_std F [Val a, Val b, Val c, Val d] 1 =
           (let avg = fdiv F (fadd F (fadd F (fadd F (fadd F (Val 0) (Val a)) (Val b)) (Val c))
                                (Val d)) (Val 4);
                sq = (\<lambda>v. fmul F (fsub F avg v) (fsub F avg v))
            in fsqrt F (fdiv F (fadd F (fadd F (fadd F (fadd F (Val 0) (sq (Val a))) (sq (Val b)))
                                         (sq (Val c))) (sq (Val d)))
                         (Val 3)))
       \<and> (let m = (a + b + c + d) / 4;
               s = (a - m)\<^sup>2 + (b - m)\<^sup>2 + (c - m)\<^sup>2 + (d - m)\<^sup>2
           in np_std exact [Val a, Val b, Val c, Val d] 0 = Val (sqrt (s / 4))
            \<and> np_std exact [Val a, Val b, Val c, Val d] 1 = Val (sqrt (s / 3))
            \<and> (s \<noteq> 0 \<longrightarrow> np_std exact [Val a, Val b, Val c, Val d] 0
                             \<noteq> np_std exact [Val a, Val b, Val c, Val d] 1))
       \<and> np_std F x 0 = np_std F (present x) 0
       \<and> (length (present x) = 0 \<longrightarrow> np_std F x 0 = NaN)"
proof -
  have r: "rect data" using assms(1) by (simp add: well_formed_def)
  note d = feature_engineering_cells [OF r assms(2,3,4)]
  have 1: "cell data' i ''BILL_AMT_old_std'' = Some (np_std F (row_values data i old_BILL_AMT) 0)"
    by (simp add: d source_not_derived)
  have 2: "cell data' i ''PAY_AMT_old_std'' = Some (np_std F (row_values data i old_PAY_AMT) 0)"
    by (simp add: d source_not_derived)
  have 3: "np_std F [Val a, Val b, Val c, Val d] 0 =
           (let avg = fdiv F (fadd F (fadd F (fadd F (fadd F (Val 0) (Val a)) (Val b)) (Val c))
                                (Val d)) (Val 4);
                sq = (\<lambda>v. fmul F (fsub F avg v) (fsub F avg v))
            in fsqrt F (fdiv F (fadd F (fadd F (fadd F (fadd F (Val 0) (sq (Val a))) (sq (Val b)))
                                         (sq (Val c))) (sq (Val d)))
                         (Val 4)))"
    by (simp add: np_std_four)
  have 4: "np_std F [Val a, Val b, Val c, Val d] 1 =
           (let avg = fdiv F (fadd F (fadd F (fadd F (fadd F (Val 0) (Val a)) (Val b)) (Val c))
                                (Val d)) (Val 4);
                sq = (\<lambda>v. fmul F (fsub F avg v) (fsub F avg v))
            in fsqrt F (fdiv F (fadd F (fadd F (fadd F (fadd F (Val 0) (sq (Val a))) (sq (Val b)))
                                         (sq (Val c))) (sq (Val d)))
                         (Val 3)))"
    by (simp add: np_std_four)
  have 5: "let m = (a + b + c + d) / 4;
               s = (a - m)\<^sup>2 + (b - m)\<^sup>2 + (c - m)\<^sup>2 + (d - m)\<^sup>2
           in np_std exact [Val a, Val b, Val c, Val d] 0 = Val (sqrt (s / 4))
            \<and> np_std exact [Val a, Val b, Val c, Val d] 1 = Val (sqrt (s / 3))
            \<and> (s \<noteq> 0 \<longrightarrow> np_std exact [Val a, Val b, Val c, Val d] 0
                             \<noteq> np_std exact [Val a, Val b, Val c, Val d] 1)"
    unfolding np_std_four_exact_0 np_std_four_exact_1 Let_def by simp
  have 6: "length (present x) = 0 \<longrightarrow> np_std F x 0 = NaN"
    by (simp add: np_std_def)
  from 1 2 3 4 5 6 np_std_present [of F x 0] show ?thesis by blast
qed

theorem std_is_population_witness:
  "well_formed example_frame
   \<and> set source_columns \<subseteq> set (columns example_frame)
   \<and> feature_engineering exact example_frame = Inr example_result
   \<and> (0::nat) < length (vals example_frame)
   \<and> row_values example_frame 0 old_BILL_AMT = [Val 10, Val 10, Val 14, Val 14]
   \<and> row_values example_frame 0 old_PAY_AMT = [Val 2, Val 2, Val 6, Val 6]
   \<and> cell example_result 0 ''BILL_AMT_old_std'' = Some (np_std exact [Val 10, Val 10, Val 14, Val 14] 0)
   \<and> cell example_result 0 ''PAY_AMT_old_std'' = Some (np_std exact [Val 2, Val 2, Val 6, Val 6] 0)
   \<and> np_std exact [Val 10, Val 10, Val 14, Val 14] 0 = Val (sqrt (16 / 4))
   \<and> np_std exact [Val 10, Val 10, Val 14, Val 14] 1 = Val (sqrt (16 / 3))
   \<and> np_std exact [Val 10, Val 10, Val 14, Val 14] 0 \<noteq> np_std exact [Val 10, Val 10, Val 14, Val 14] 1
   \<and> length (present [NaN, NaN]) = 0 \<and> np_std exact [NaN, NaN] 0 = NaN"
proof -
  have i: "(0::nat) < length (vals example_frame)" by (simp add: example_frame_def)
  have v: "row_values example_frame 0 old_BILL_AMT = [Val 10, Val 10, Val 14, Val 14]"
    "row_values example_frame 0 old_PAY_AMT = [Val 2, Val 2, Val 6, Val 6]"
    by (simp_all add: row_values_def cell_def row_get_def example_frame_def
        old_BILL_AMT_def old_PAY_AMT_def)
  note t = std_is_population [OF example_frame_wf example_frame_source example_features i,
      of 10 10 14 14 "[NaN, NaN]"]
  from t [THEN conjunct1]
  have 1: "cell example_result 0 ''BILL_AMT_old_std''
           = Some (np_std exact [Val 10, Val 10, Val 14, Val 14] 0)"
    by (simp only: v)
  from t [THEN conjunct2, THEN conjunct1]
  have 2: "cell example_result 0 ''PAY_AMT_old_std''
           = Some (np_std exact [Val 2, Val 2, Val 6, Val 6] 0)"
    by (simp only: v)
  from t [THEN conjunct2, THEN conjunct2, THEN conjunct2, THEN conjunct2, THEN conjunct1]
  have 3: "np_std exact [Val 10, Val 10, Val 14, Val 14] 0 = Val (sqrt (16 / 4))"
    and 4: "np_std exact [Val 10, Val 10, Val 14, Val 14] 1 = Val (sqrt (16 / 3))"
    and 5: "np_std exact [Val 10, Val 10, Val 14, Val 14] 0
            \<noteq> np_std exact [Val 10, Val 10, Val 14, Val 14] 1"
    by (auto simp: Let_def)
  have 6: "length (present [NaN, NaN]) = 0" by (simp add: present_def)
  from t [THEN conjunct2, THEN conjunct2, THEN conjunct2, THEN conjunct2, THEN conjunct2,
      THEN conjunct2] 6
  have 7: "np_std exact [NaN, NaN] 0 = NaN"
    by simp
  from example_frame_wf example_frame_source example_features i v 1 2 3 4 5 6 7
  show ?thesis by blast
qed

text \<open>
  C10. The derivation touches no other column. For every row and every label \<open>c\<close> that is
  neither one of the twelve dropped nor one of the five derived labels, the cell after the
  feature cell is the cell of the table that the derivation starts from, which is the input
  with \<^verbatim>\<open>PAY_0\<close> relabelled \<^verbatim>\<open>PAY_1\<close>. Against the input itself: the values of such a
  column \<open>c\<close> of the input are found unchanged under the label \<open>c\<close>, or under \<^verbatim>\<open>PAY_1\<close> for
  \<^verbatim>\<open>PAY_0\<close>, provided the input does not hold both \<^verbatim>\<open>PAY_0\<close> and \<^verbatim>\<open>PAY_1\<close>.
\<close>

theorem other_columns_unchanged:
  assumes "well_formed data" and "set source_columns \<subseteq> set (columns data)"
    and "feature_engineering F data = Inr data'" and "i < length (vals data)"
    and "c \<notin> set source_columns" and "c \<notin> set derived_columns"
  shows "cell data' i c = cell (rename_columns [''PAY_0'' \<mapsto> ''PAY_1''] data) i c
       \<and> (c \<in> set (columns data)
            \<and> \<not> (''PAY_0'' \<in> set (columns data) \<and> ''PAY_1'' \<in> set (columns data))
          \<longrightarrow> cell data' i (if c = ''PAY_0'' then ''PAY_1'' else c) = cell data i c)"
proof -
  have r: "rect data" using assms(1) by (simp add: well_formed_def)
  note d = feature_engineering_cells [OF r assms(2,3,4)]
  have keep: "cell data' i c' = cell (rename_columns pay_rename data) i c'"
    if "c' \<notin> set source_columns" and "c' \<notin> set derived_columns" for c'
    using that by (simp add: d derived_columns_def)
  have "cell data' i (if c = ''PAY_0'' then ''PAY_1'' else c) = cell data i c"
    if c: "c \<in> set (columns data)"
      and n: "\<not> (''PAY_0'' \<in> set (columns data) \<and> ''PAY_1'' \<in> set (columns data))"
  proof (cases "c = ''PAY_0''")
    case True
    with c n have "''PAY_1'' \<notin> set (columns data)" by simp
    then have "cell (rename_columns pay_rename data) i ''PAY_1'' = cell data i ''PAY_0''"
      using r assms(4) by (intro rename_cell_PAY_1)
    moreover have "cell data' i ''PAY_1'' = cell (rename_columns pay_rename data) i ''PAY_1''"
      by (intro keep) (simp_all add: derived_columns_def old_PAY_def old_BILL_AMT_def old_PAY_AMT_def)
    ultimately show ?thesis using True by simp
  next
    case False
    note c0 = this
    show ?thesis
    proof (cases "c = ''PAY_1''")
      case True
      with c n have "''PAY_0'' \<notin> set (columns data)" by auto
      then have "rename_columns pay_rename data = data" by (rule rename_absent)
      with keep [OF assms(5,6)] c0 show ?thesis by simp
    next
      case False
      with c0 r assms(4) have "cell (rename_columns pay_rename data) i c = cell data i c"
        by (intro rename_cell_other)
      with keep [OF assms(5,6)] c0 show ?thesis by simp
    qed
  qed
  with keep [OF assms(5,6)] show ?thesis by blast
qed

theorem other_columns_unchanged_witness:
  "well_formed example_frame
   \<and> set source_columns \<subseteq> set (columns example_frame)
   \<and> feature_engineering exact example_frame = Inr example_result
   \<and> (1::nat) < length (vals example_frame)
   \<and> ''AGE'' \<notin> set source_columns \<and> ''AGE'' \<notin> set derived_columns
   \<and> ''PAY_0'' \<notin> set source_columns \<and> ''PAY_0'' \<notin> set derived_columns
   \<and> ''AGE'' \<in> set (columns example_frame) \<and> ''PAY_0'' \<in> set (columns example_frame)
   \<and> ''PAY_1'' \<notin> set (columns example_frame)
   \<and> cell example_frame 1 ''AGE'' = Some (Val 41) \<and> cell example_result 1 ''AGE'' = Some (Val 41)
   \<and> cell example_frame 1 ''PAY_0'' = Some (Val 0) \<and> cell example_result 1 ''PAY_1'' = Some (Val 0)"
proof -
  have i: "(1::nat) < length (vals example_frame)" by (simp add: example_frame_def)
  have a: "''AGE'' \<notin> set source_columns" "''AGE'' \<notin> set derived_columns"
    and p: "''PAY_0'' \<notin> set source_columns" "''PAY_0'' \<notin> set derived_columns"
    by (simp_all add: old_PAY_def old_BILL_AMT_def old_PAY_AMT_def derived_columns_def)
  have c: "''AGE'' \<in> set (columns example_frame)" "''PAY_0'' \<in> set (columns example_frame)"
    "''PAY_1'' \<notin> set (columns example_frame)"
    by (simp_all add: example_frame_def)
  have v: "cell example_frame 1 ''AGE'' = Some (Val 41)" "cell example_frame 1 ''PAY_0'' = Some (Val 0)"
    by (simp_all add: cell_def row_get_def example_frame_def)
  from other_columns_unchanged
      [OF example_frame_wf example_frame_source example_features i a, THEN conjunct2] c v
  have 1: "cell example_result 1 ''AGE'' = Some (Val 41)" by simp
  from other_columns_unchanged
      [OF example_frame_wf example_frame_source example_features i p, THEN conjunct2] c v
  have 2: "cell example_result 1 ''PAY_1'' = Some (Val 0)" by simp
  from example_frame_wf example_frame_source example_features i a p c v 1 2
  show ?thesis by blast
qed

subsection \<open>The notebook, cell by cell\<close>

lemma drop_cols_Inr:
  assumes "drop_cols ls df = Inr df'"
  shows "set ls \<subseteq> set (columns df)" and "columns df' = filter (\<lambda>c. c \<notin> set ls) (columns df)"
    and "length (vals df') = length (vals df)"
  using assms by (auto simp: drop_cols_def split: if_splits)

lemma cell_load_Inr:
  assumes "cell_load sheet = Inr s"
  shows "columns (var_X s) = filter (\<lambda>c. c \<notin> set [label_column]) (columns sheet)"
    and "length (vals (var_X s)) = length (vals sheet)"
    and "length (var_y s) = length (vals sheet)"
  using assms
  by (auto simp: cell_load_def drop_cols_def getitem_col_def split: if_splits)

lemma cell_load_ok:
  assumes "label_column \<in> set (columns sheet)"
  shows "\<exists>s. cell_load sheet = Inr s"
  using assms by (simp add: cell_load_def drop_cols_def getitem_col_def)

lemma cell_shuffle_Inr:
  assumes "cell_shuffle P s = Inr s'"
  shows "columns (var_data s') = filter (\<lambda>c. c \<notin> set [''ID'']) (columns (var_X s))"
    and "var_X s' = var_X s"
  using assms
  by (auto simp: cell_shuffle_def Let_def sk_shuffle_def del_col_def drop_cols_def
      split: if_splits prod.splits)

lemma cell_shuffle_ok:
  assumes "length (vals (var_X s)) = length (var_y s)" and "''ID'' \<in> set (columns (var_X s))"
  shows "\<exists>s'. cell_shuffle P s = Inr s'"
  using assms
  by (simp add: cell_shuffle_def Let_def sk_shuffle_def del_col_def drop_cols_def
      split: prod.splits)

lemma cell_features_Inr:
  assumes "cell_features F s = Inr s'"
  shows "columns (var_data s') = derived_labels (columns (rename_columns pay_rename (var_data s)))"
  using assms unfolding cell_features_def
  by (elim bind_err_InrE) (auto dest: feature_engineering_Inr_columns)

lemma cell_features_ok:
  assumes "set source_columns \<subseteq> set (columns (var_data s))"
  shows "\<exists>s'. cell_features F s = Inr s'"
  using feature_engineering_char [OF assms, where F = F] by (auto simp: cell_features_def)

lemma example_cell_features: "cell_features exact example_shuffled = Inr example_featured"
  by (simp add: cell_features_def example_shuffled_def example_featured_def
      example_shuffled_data_def example_features_data_def sheet_header_def frame_ops)

text \<open>
  C7. The features \<open>X\<close> that the loading cell builds do not have the label column, and
  neither has the table after the shuffling cell, the table after the feature cell, or the
  list of feature names that the split cell reads off it.
\<close>

theorem label_excluded:
  assumes "cell_load sheet = Inr s1" and "cell_shuffle P s1 = Inr s2"
    and "cell_features F s2 = Inr s3"
  shows "label_column \<notin> set (columns (var_X s1))
       \<and> label_column \<notin> set (columns (var_data s2))
       \<and> label_column \<notin> set (columns (var_data s3))
       \<and> label_column \<notin> set (feature_names (cell_split s3))"
proof -
  have 1: "label_column \<notin> set (columns (var_X s1))"
    using cell_load_Inr(1) [OF assms(1)] by simp
  have 2: "label_column \<notin> set (columns (var_data s2))"
    using cell_shuffle_Inr(1) [OF assms(2)] 1 by simp
  have "label_column \<notin> set (columns (rename_columns pay_rename (var_data s2)))"
    using 2 by (auto simp: rename_pay_columns label_column_def)
  moreover have "label_column \<notin> set derived_columns"
    by (simp add: label_column_def derived_columns_def)
  ultimately have 3: "label_column \<notin> set (columns (var_data s3))"
    using cell_features_Inr [OF assms(3)]
      set_derived_labels [of "columns (rename_columns pay_rename (var_data s2))"]
    by (auto simp del: rename_pay_columns)
  have "feature_names (cell_split s3) = columns (var_data s3)"
    by (simp add: cell_split_def train_test_split_def Let_def)
  with 1 2 3 show ?thesis by simp
qed

theorem label_excluded_witness:
  "cell_load example_sheet = Inr example_loaded
   \<and> cell_shuffle lcg example_loaded = Inr example_shuffled
   \<and> cell_features exact example_shuffled = Inr example_featured
   \<and> label_column \<in> set (columns example_sheet)
   \<and> label_column \<notin> set (columns (var_X example_loaded))
   \<and> label_column \<notin> set (columns (var_data example_shuffled))
   \<and> label_column \<notin> set (columns (var_data example_featured))
   \<and> label_column \<notin> set (feature_names (cell_split example_featured))"
proof -
  have "label_column \<in> set (columns example_sheet)"
    by (simp add: example_sheet_def sheet_header_def label_column_def)
  with label_excluded [OF example_load example_shuffle example_cell_features]
    example_load example_shuffle example_cell_features
  show ?thesis by blast
qed

lemma header_features:
  "derived_labels (map (\<lambda>c. if c = ''PAY_0'' then ''PAY_1'' else c)
      (filter (\<lambda>c. c \<notin> set [''ID'']) (filter (\<lambda>c. c \<notin> set [label_column]) sheet_header)))
   = [''LIMIT_BAL'', ''SEX'', ''EDUCATION'', ''MARRIAGE'', ''AGE'', ''PAY_1'', ''PAY_2'',
      ''BILL_AMT1'', ''BILL_AMT2'', ''PAY_AMT1'', ''PAY_AMT2'', ''PAY_old_mean'',
      ''BILL_AMT_old_mean'', ''BILL_AMT_old_std'', ''PAY_AMT_old_mean'', ''PAY_AMT_old_std'']"
  by (simp add: sheet_header_def label_column_def derived_labels_def with_label_def
      old_PAY_def old_BILL_AMT_def old_PAY_AMT_def)

text \<open>
  C9. On every sheet with the expected header, the notebook runs through and the feature
  list is exactly the sixteen names below, in this order; \<^verbatim>\<open>PAY_0\<close> and \<^verbatim>\<open>ID\<close> are not
  among them.
\<close>

theorem feature_list:
  assumes "columns sheet = sheet_header"
  shows "\<exists>sp. notebook P F sheet = Inr sp
           \<and> feature_names sp =
               [''LIMIT_BAL'', ''SEX'', ''EDUCATION'', ''MARRIAGE'', ''AGE'', ''PAY_1'', ''PAY_2'',
                ''BILL_AMT1'', ''BILL_AMT2'', ''PAY_AMT1'', ''PAY_AMT2'', ''PAY_old_mean'',
                ''BILL_AMT_old_mean'', ''BILL_AMT_old_std'', ''PAY_AMT_old_mean'',
                ''PAY_AMT_old_std'']
           \<and> length (feature_names sp) = 16
           \<and> ''PAY_0'' \<notin> set (feature_names sp) \<and> ''ID'' \<notin> set (feature_names sp)"
proof -
  have "label_column \<in> set (columns sheet)"
    by (simp add: assms sheet_header_def label_column_def)
  then obtain s1 :: "'a kernel" where l: "cell_load sheet = Inr s1"
    using cell_load_ok by blast
  note c1 = cell_load_Inr [OF l]
  have "''ID'' \<in> set (columns (var_X s1))"
    by (simp add: c1 assms sheet_header_def label_column_def)
  then obtain s2 where s: "cell_shuffle P s1 = Inr s2"
    using cell_shuffle_ok [of s1 P] c1 by auto
  note c2 = cell_shuffle_Inr [OF s]
  have "set source_columns \<subseteq> set (columns (var_data s2))"
    by (simp add: c2 c1 assms sheet_header_def label_column_def
        old_PAY_def old_BILL_AMT_def old_PAY_AMT_def)
  then obtain s3 where f: "cell_features F s2 = Inr s3"
    using cell_features_ok by blast
  have "columns (var_data s3) =
               [''LIMIT_BAL'', ''SEX'', ''EDUCATION'', ''MARRIAGE'', ''AGE'', ''PAY_1'', ''PAY_2'',
                ''BILL_AMT1'', ''BILL_AMT2'', ''PAY_AMT1'', ''PAY_AMT2'', ''PAY_old_mean'',
                ''BILL_AMT_old_mean'', ''BILL_AMT_old_std'', ''PAY_AMT_old_mean'',
                ''PAY_AMT_old_std'']"
    unfolding cell_features_Inr [OF f] rename_pay_columns c2 c1 assms by (rule header_features)
  moreover have "notebook P F sheet = Inr (cell_split s3)"
    by (simp add: notebook_def l s f)
  moreover have "feature_names (cell_split s3) = columns (var_data s3)"
    by (simp add: cell_split_def train_test_split_def Let_def)
  ultimately show ?thesis by simp
qed

theorem feature_list_witness:
  "columns example_sheet = sheet_header
   \<and> notebook lcg exact example_sheet =
       Inr \<lparr>feature_names =
              [''LIMIT_BAL'', ''SEX'', ''EDUCATION'', ''MARRIAGE'', ''AGE'', ''PAY_1'', ''PAY_2'',
               ''BILL_AMT1'', ''BILL_AMT2'', ''PAY_AMT1'', ''PAY_AMT2'', ''PAY_old_mean'',
               ''BILL_AMT_old_mean'', ''BILL_AMT_old_std'', ''PAY_AMT_old_mean'',
               ''PAY_AMT_old_std''],
            X_train = map (map Val) [[900, 2, 2, 2, 34, 0, 0, 29, 14, 15, 18, 0, 2, 2, 1, 0]],
            X_test = map (map Val)
                     [[200, 2, 2, 1, 24, 2, 2, 39, 31, 0, 68, 1, 12, 2, 4, 2],
                      [120, 2, 2, 2, 26, 0, 2, 26, 17, 0, 10, 1, 5, 0, 3, 0]],
            y_train = map Val [0], y_test = map Val [1, 0]\<rparr>"
proof -
  have h: "columns example_sheet = sheet_header" by (simp add: example_sheet_def)
  have "notebook lcg exact example_sheet = Inr (cell_split example_featured)"
    by (simp add: notebook_def example_load example_shuffle example_cell_features)
  with feature_list [OF h, of lcg exact] h show ?thesis
    by (simp add: cell_split_def train_test_split_def example_featured_def
        example_features_data_def)
qed

end
